theory Spec2Isabelle
  imports Complex_Main "HOL-Library.Multiset"
begin

section \<open>JavaScript values\<close>

text \<open>
  The values the handler of \<^verbatim>\<open>controllers/careerController.js\<close> touches. A finite
  number is the rational it denotes (every double is one); \<open>JNaN\<close> is the one
  non-number the handler can compute itself (\<open>0 / 0\<close>). Infinities do not arise:
  the only division is \<open>matchCount / totalRequired\<close> with
  \<open>matchCount \<le> totalRequired\<close>. An object is the list of its properties in
  insertion order, with distinct keys (the order of keys that are array indices is
  not modelled).
\<close>

datatype jsval =
    JUndefined
  | JNull
  | JBool bool
  | JNum rat
  | JNaN
  | JStr string
  | JArr "jsval list"
  | JObj "(string \<times> jsval) list"

type_synonym obj = "(string \<times> jsval) list"

text \<open>\<open>o.k\<close>: the value of property \<open>k\<close>, \<open>undefined\<close> when the object has none.\<close>

definition prop_get :: "obj \<Rightarrow> string \<Rightarrow> jsval" where
  "prop_get ob k = (case map_of ob k of None \<Rightarrow> JUndefined | Some v \<Rightarrow> v)"

text \<open>Defining property \<open>k\<close>: an existing property keeps its place and takes the
  new value, a new one goes last.\<close>

fun prop_set :: "string \<Rightarrow> jsval \<Rightarrow> obj \<Rightarrow> obj" where
  "prop_set k v [] = [(k, v)]"
| "prop_set k v ((k', v') # ps) =
     (if k' = k then (k, v) # ps else (k', v') # prop_set k v ps)"

text \<open>\<open>{ ...target, ...source }\<close>: the properties of \<open>source\<close> are defined on
  \<open>target\<close> one after the other, so a later one overwrites an earlier one of the same
  name. Spreading \<open>undefined\<close> adds nothing.\<close>

definition spread :: "obj \<Rightarrow> obj option \<Rightarrow> obj" where
  "spread target source =
     (case source of
        None \<Rightarrow> target
      | Some ps \<Rightarrow> fold (\<lambda>(k, v) acc. prop_set k v acc) ps target)"

text \<open>\<open>xs.includes(v)\<close> compares with SameValueZero; on the values above that is
  equality for primitives (what the handler looks for is always a string).\<close>

definition array_includes :: "jsval list \<Rightarrow> jsval \<Rightarrow> bool" where
  "array_includes xs v = (v \<in> set xs)"

text \<open>
  \<open>ToNumber\<close>, with \<open>None\<close> for NaN. The conversion of strings, arrays and
  objects (StringToNumber after ToPrimitive) is not modelled; it is the parameter
  \<open>coerce\<close>, about which nothing is assumed.
\<close>

fun ToNumber :: "(jsval \<Rightarrow> rat option) \<Rightarrow> jsval \<Rightarrow> rat option" where
  "ToNumber coerce JUndefined = None"
| "ToNumber coerce JNull = Some 0"
| "ToNumber coerce (JBool b) = Some (if b then 1 else 0)"
| "ToNumber coerce (JNum r) = Some r"
| "ToNumber coerce JNaN = None"
| "ToNumber coerce v = coerce v"

text \<open>\<open>x - y\<close>. The double nearest to the difference of two doubles has the sign
  of the exact difference, and only the sign is used below, so the exact difference
  stands for it.\<close>

definition js_minus :: "(jsval \<Rightarrow> rat option) \<Rightarrow> jsval \<Rightarrow> jsval \<Rightarrow> rat option" where
  "js_minus coerce x y =
     (case (ToNumber coerce x, ToNumber coerce y) of
        (Some a, Some b) \<Rightarrow> Some (a - b)
      | _ \<Rightarrow> None)"

section \<open>Array.prototype.sort\<close>

text \<open>
  \<open>SortCompare\<close> reads a comparator result that is NaN as \<open>+0\<close>. The sort is
  stable: an element moves behind a later one only when the comparator says it is
  greater. For a consistent comparator that fixes the result; for an inconsistent one
  (a NaN among the keys) ECMAScript leaves the order to the implementation, and the
  function below gives the order of a stable insertion.
\<close>

definition SortCompare :: "('a \<Rightarrow> 'a \<Rightarrow> rat option) \<Rightarrow> 'a \<Rightarrow> 'a \<Rightarrow> rat" where
  "SortCompare comparefn x y = (case comparefn x y of None \<Rightarrow> 0 | Some v \<Rightarrow> v)"

fun sort_insert :: "('a \<Rightarrow> 'a \<Rightarrow> rat option) \<Rightarrow> 'a \<Rightarrow> 'a list \<Rightarrow> 'a list" where
  "sort_insert comparefn x [] = [x]"
| "sort_insert comparefn x (y # ys) =
     (if SortCompare comparefn x y \<le> 0 then x # y # ys
      else y # sort_insert comparefn x ys)"

definition array_sort :: "('a \<Rightarrow> 'a \<Rightarrow> rat option) \<Rightarrow> 'a list \<Rightarrow> 'a list" where
  "array_sort comparefn xs = foldr (sort_insert comparefn) xs []"

section \<open>Double-precision arithmetic and Math.round\<close>

text \<open>
  \<open>binade n x\<close> looks for the exponent \<open>e\<close> with \<open>2^e \<le> x < 2^(e+1)\<close> of a
  positive \<open>x\<close>, in at most \<open>n\<close> halvings or doublings. \<open>fl x\<close> is the double
  nearest to \<open>x\<close>, ties to the even significand (53 bits, subnormals below
  \<open>2^-1022\<close>); overflow to Infinity, above \<open>2^1024\<close>, is outside its range of use.
\<close>

fun binade :: "nat \<Rightarrow> rat \<Rightarrow> int" where
  "binade 0 x = 0"
| "binade (Suc n) x =
     (if x < 1 then binade n (2 * x) - 1
      else if 2 \<le> x then binade n (x / 2) + 1
      else 0)"

definition roundTiesToEven :: "rat \<Rightarrow> int" where
  "roundTiesToEven y =
     (let n = \<lfloor>y\<rfloor>; d = y - of_int n
      in if d < 1 / 2 then n
         else if 1 / 2 < d then n + 1
         else if even n then n else n + 1)"

definition fl :: "rat \<Rightarrow> rat" where
  "fl x =
     (if x = 0 then 0
      else let e = max (binade 1100 \<bar>x\<bar>) (- 1022); q = 2 powi (e - 52)
           in of_int (roundTiesToEven (x / q)) * q)"

text \<open>\<open>Math.round\<close>: the nearest integer, a tie going up.\<close>

definition Math_round :: "rat \<Rightarrow> int" where
  "Math_round x = \<lfloor>x + 1 / 2\<rfloor>"

section \<open>The tables, the request and the response\<close>

record Named =
  role :: string

record Role = Named +
  requiredSkills :: "string list"

record RoleMatch = Named +
  matchCount :: nat
  totalRequired :: nat

text \<open>\<open>req.body.skills\<close>: \<open>None\<close> when the body has no such field, the array
  otherwise (the interface declares an array; its elements are any values). The
  response is the status and the object handed to \<open>res.json\<close>, before it is
  serialised.\<close>

record request =
  skills :: "jsval list option"

record response =
  status :: nat
  body :: obj

datatype error = TypeError | Thrown string

section \<open>recommendCareer\<close>

text \<open>The callback of \<open>roles.map\<close> (lines 14 to 24).\<close>

definition scoreRole :: "jsval list \<Rightarrow> Role \<Rightarrow> RoleMatch" where
  "scoreRole userSkills r =
     (let matchedSkills = filter (\<lambda>skill. array_includes userSkills (JStr skill)) (requiredSkills r)
      in \<lparr>role = role r,
          matchCount = length matchedSkills,
          totalRequired = length (requiredSkills r)\<rparr>)"

text \<open>The comparator \<open>(a, b) => b.matchCount - a.matchCount\<close>.\<close>

definition byMatchCount :: "RoleMatch \<Rightarrow> RoleMatch \<Rightarrow> rat option" where
  "byMatchCount a b = Some (of_nat (matchCount b) - of_nat (matchCount a))"

text \<open>Lines 13 to 25; \<open>None\<close> is the \<open>undefined\<close> that \<open>[0]\<close> reads from an
  empty array.\<close>

definition matchedRole :: "Role list \<Rightarrow> jsval list \<Rightarrow> RoleMatch option" where
  "matchedRole roles userSkills =
     (case array_sort byMatchCount (map (scoreRole userSkills) roles) of
        [] \<Rightarrow> None
      | m # _ \<Rightarrow> Some m)"

text \<open>The callback of the second \<open>map\<close> (lines 32 to 36). \<open>calculateScore\<close> is
  \<^verbatim>\<open>utils/scoring.js\<close>, which may return any value or throw; its argument is
  \<open>None\<close> when \<open>find\<close> returned \<open>undefined\<close>.\<close>

definition missingEntry ::
  "(obj option \<Rightarrow> error + jsval) \<Rightarrow> obj list \<Rightarrow> string \<Rightarrow> error + obj" where
  "missingEntry calculateScore skillsData skill =
     (let skillInfo = find (\<lambda>s. prop_get s ''name'' = JStr skill) skillsData
      in case calculateScore skillInfo of
           Inl e \<Rightarrow> Inl e
         | Inr score \<Rightarrow> Inr (spread [(''skill'', JStr skill), (''score'', score)] skillInfo))"

text \<open>\<open>xs.map(f)\<close> for a callback that can throw: the first throw ends the call.\<close>

fun array_map :: "('a \<Rightarrow> error + 'b) \<Rightarrow> 'a list \<Rightarrow> error + 'b list" where
  "array_map f [] = Inr []"
| "array_map f (x # xs) =
     (case f x of
        Inl e \<Rightarrow> Inl e
      | Inr y \<Rightarrow> (case array_map f xs of Inl e \<Rightarrow> Inl e | Inr ys \<Rightarrow> Inr (y # ys)))"

text \<open>The comparator \<open>(a, b) => b.score - a.score\<close>.\<close>

definition byScore :: "(jsval \<Rightarrow> rat option) \<Rightarrow> obj \<Rightarrow> obj \<Rightarrow> rat option" where
  "byScore coerce a b = js_minus coerce (prop_get b ''score'') (prop_get a ''score'')"

text \<open>Line 42. Both operands are array lengths, so the quotient of the two doubles
  is the double nearest to the exact quotient; \<open>0 / 0\<close> is NaN, and
  \<open>Math.round(NaN)\<close> is NaN. A non-zero count over zero does not occur
  (\<open>matchCount \<le> totalRequired\<close>).\<close>

definition matchPercentage :: "RoleMatch \<Rightarrow> jsval" where
  "matchPercentage m =
     (if totalRequired m = 0 then JNaN
      else JNum (of_int (Math_round
             (fl (fl (of_nat (matchCount m) / of_nat (totalRequired m)) * 100)))))"

text \<open>Lines 30 to 36: the entries of the required skills the user does not have, in the
  order of \<open>requiredSkills\<close>.\<close>

definition missingSkills ::
  "(obj option \<Rightarrow> error + jsval) \<Rightarrow> obj list \<Rightarrow> jsval list \<Rightarrow> Role \<Rightarrow> error + obj list" where
  "missingSkills calculateScore skillsData userSkills targetRole =
     array_map (missingEntry calculateScore skillsData)
       (filter (\<lambda>skill. \<not> array_includes userSkills (JStr skill)) (requiredSkills targetRole))"

text \<open>
  The handler. \<open>Inr\<close> is the response it sends, \<open>Inl\<close> the exception it throws.
  With an empty Roles table \<open>matchedRole\<close> is \<open>undefined\<close>, \<open>find\<close> never calls
  its callback and returns \<open>undefined\<close>, and reading \<open>targetRole.requiredSkills\<close>
  throws the TypeError.
\<close>

definition recommendCareer ::
  "(obj option \<Rightarrow> error + jsval) \<Rightarrow> (jsval \<Rightarrow> rat option) \<Rightarrow> Role list \<Rightarrow> obj list \<Rightarrow>
     request \<Rightarrow> error + response" where
  "recommendCareer calculateScore coerce roles skillsData req =
     (let userSkills = (case skills req of None \<Rightarrow> [] | Some xs \<Rightarrow> xs)
      in if length userSkills = 0
         then Inr \<lparr>status = 400, body = [(''message'', JStr ''Skills are required'')]\<rparr>
         else
           (case matchedRole roles userSkills of
              None \<Rightarrow> Inl TypeError
            | Some matched \<Rightarrow>
                (case find (\<lambda>r. role r = role matched) roles of
                   None \<Rightarrow> Inl TypeError
                 | Some targetRole \<Rightarrow>
                     (case missingSkills calculateScore skillsData userSkills targetRole of
                        Inl e \<Rightarrow> Inl e
                      | Inr missing \<Rightarrow>
                          (let sortedRecommendations = array_sort (byScore coerce) missing
                           in Inr \<lparr>status = 200,
                                   body =
                                     [(''role'', JStr (role matched)),
                                      (''matchPercentage'', matchPercentage matched),
                                      (''recommendedSkills'',
                                         JArr (map JObj (take 3 sortedRecommendations)))]\<rparr>)))))"

section \<open>The rounding of the specification\<close>

text \<open>Section 4.1, step 2, of the specification rounds the exact quotient half away
  from zero.\<close>

definition round_half_away_from_zero :: "rat \<Rightarrow> int" where
  "round_half_away_from_zero x = (if 0 \<le> x then \<lfloor>x + 1 / 2\<rfloor> else - \<lfloor>- x + 1 / 2\<rfloor>)"

section \<open>The scoring function\<close>

text \<open>
  Modelled from the spec: \<^verbatim>\<open>utils/scoring.js\<close> (\<open>calculateScore\<close>) is not
  among the sources. Section 4.2 of the specification makes it a function that must
  not fail or throw, also on metadata that is absent or has absent fields, and that
  returns a real number.
\<close>

definition scoring_contract :: "(obj option \<Rightarrow> error + jsval) \<Rightarrow> bool" where
  "scoring_contract calculateScore = (\<forall>skillInfo. \<exists>r. calculateScore skillInfo = Inr (JNum r))"

section \<open>The example tables\<close>

text \<open>Two roles, metadata for two of the four skills, and a scoring function that
  reads the \<open>demand\<close> of a skill and gives 0 to a skill without one.\<close>

definition example_roles :: "Role list" where
  "example_roles =
     [\<lparr>role = ''Backend Developer'', requiredSkills = [''Node'', ''SQL'']\<rparr>,
      \<lparr>role = ''Frontend Developer'', requiredSkills = [''React'', ''CSS'']\<rparr>]"

definition example_skills :: "obj list" where
  "example_skills =
     [[(''name'', JStr ''SQL''), (''demand'', JNum 9)],
      [(''name'', JStr ''CSS''), (''demand'', JNum 7)]]"

definition example_score :: "obj option \<Rightarrow> error + jsval" where
  "example_score skillInfo =
     (case skillInfo of
        None \<Rightarrow> Inr (JNum 0)
      | Some info \<Rightarrow>
          (case prop_get info ''demand'' of JNum d \<Rightarrow> Inr (JNum d) | _ \<Rightarrow> Inr (JNum 0)))"

text \<open>A scoring function that throws on every call.\<close>

definition throwing_score :: "obj option \<Rightarrow> error + jsval" where
  "throwing_score skillInfo = Inl (Thrown ''scoring'')"

text \<open>No conversion of a string, an array or an object gives a number.\<close>

definition example_coerce :: "jsval \<Rightarrow> rat option" where
  "example_coerce v = None"

text \<open>A role with three required skills, and metadata that carries a \<open>score\<close> or a
  \<open>skill\<close> field of its own.\<close>

definition backend_roles :: "Role list" where
  "backend_roles =
     [\<lparr>role = ''Backend Developer'', requiredSkills = [''Node'', ''SQL'', ''Docker'']\<rparr>]"

definition sql_info :: obj where
  "sql_info = [(''name'', JStr ''SQL''), (''demand'', JNum 9), (''score'', JNum 1)]"

definition docker_info :: obj where
  "docker_info = [(''name'', JStr ''Docker''), (''demand'', JNum 7)]"

definition docker_renamed :: obj where
  "docker_renamed = [(''name'', JStr ''Docker''), (''demand'', JNum 7), (''skill'', JStr ''Kubernetes'')]"

text \<open>A role with forty required skills, and a user who has the first twenty-three.\<close>

definition forty_skills :: "string list" where
  "forty_skills =
     [''s01'', ''s02'', ''s03'', ''s04'', ''s05'', ''s06'', ''s07'', ''s08'',
      ''s09'', ''s10'', ''s11'', ''s12'', ''s13'', ''s14'', ''s15'', ''s16'',
      ''s17'', ''s18'', ''s19'', ''s20'', ''s21'', ''s22'', ''s23'', ''s24'',
      ''s25'', ''s26'', ''s27'', ''s28'', ''s29'', ''s30'', ''s31'', ''s32'',
      ''s33'', ''s34'', ''s35'', ''s36'', ''s37'', ''s38'', ''s39'', ''s40'']"

definition wide_roles :: "Role list" where
  "wide_roles = [\<lparr>role = ''Generalist'', requiredSkills = forty_skills\<rparr>]"

definition wide_request :: request where
  "wide_request = \<lparr>skills = Some (map JStr (take 23 forty_skills))\<rparr>"

section \<open>The tables in a store\<close>

text \<open>
  \<open>sort\<close> rearranges the array it is called on, and \<open>roles\<close> and
  \<open>skillsData\<close> are module-level arrays that every request shares. To see what a
  request writes to, arrays are cells of a store and the handler works on their
  addresses: \<open>map\<close>, \<open>filter\<close> and \<open>slice\<close> put their result in a new cell,
  \<open>sort\<close> overwrites the cell it is given and returns its address. A role of the table
  refers to its \<open>requiredSkills\<close> array by address. Objects are values, the handler
  assigning no property; \<open>userSkills\<close> is the request's own array and is passed by
  value; \<open>calculateScore\<close> is a function of the metadata and writes nothing.
\<close>

type_synonym addr = nat

record RoleObject = Named +
  requiredSkillsAt :: addr

datatype array =
    RoleArray "RoleObject list"
  | StringArray "string list"
  | ObjArray "obj list"
  | MatchArray "RoleMatch list"

text \<open>Addresses from \<open>fresh\<close> on are unused.\<close>

record store =
  cells :: "addr \<Rightarrow> array option"
  fresh :: addr

text \<open>A step of the handler: from a store to a result, or a thrown exception, and the
  store it leaves.\<close>

type_synonym 'a action = "store \<Rightarrow> (error + 'a) \<times> store"

definition alloc :: "array \<Rightarrow> addr action" where
  "alloc xs s = (Inr (fresh s), s\<lparr>cells := (cells s)(fresh s \<mapsto> xs), fresh := Suc (fresh s)\<rparr>)"

definition throw :: "error \<Rightarrow> 'a action" where
  "throw e s = (Inl e, s)"

definition return :: "'a \<Rightarrow> 'a action" where
  "return x s = (Inr x, s)"

definition and_then :: "'a action \<Rightarrow> ('a \<Rightarrow> 'b action) \<Rightarrow> 'b action" where
  "and_then m f s = (case m s of (Inl e, s1) \<Rightarrow> (Inl e, s1) | (Inr x, s1) \<Rightarrow> f x s1)"

text \<open>The calls of a callback on the elements of an array, in order.\<close>

fun each :: "('a \<Rightarrow> 'b action) \<Rightarrow> 'a list \<Rightarrow> 'b list action" where
  "each f [] = return []"
| "each f (x # xs) = and_then (f x) (\<lambda>y. and_then (each f xs) (\<lambda>ys. return (y # ys)))"

text \<open>The array methods the handler calls. A method called on something that is not
  the expected array throws.\<close>

definition Array_filter :: "(string \<Rightarrow> bool) \<Rightarrow> addr \<Rightarrow> addr action" where
  "Array_filter P a s =
     (case cells s a of
        Some (StringArray xs) \<Rightarrow> alloc (StringArray (filter P xs)) s
      | _ \<Rightarrow> throw TypeError s)"

definition Array_length :: "addr \<Rightarrow> nat action" where
  "Array_length a s =
     (case cells s a of
        Some (StringArray xs) \<Rightarrow> return (length xs) s
      | _ \<Rightarrow> throw TypeError s)"

definition Array_map_roles :: "(RoleObject \<Rightarrow> RoleMatch action) \<Rightarrow> addr \<Rightarrow> addr action" where
  "Array_map_roles f a s =
     (case cells s a of
        Some (RoleArray rs) \<Rightarrow> and_then (each f rs) (\<lambda>ms. alloc (MatchArray ms)) s
      | _ \<Rightarrow> throw TypeError s)"

definition Array_map_strings :: "(string \<Rightarrow> obj action) \<Rightarrow> addr \<Rightarrow> addr action" where
  "Array_map_strings f a s =
     (case cells s a of
        Some (StringArray xs) \<Rightarrow> and_then (each f xs) (\<lambda>es. alloc (ObjArray es)) s
      | _ \<Rightarrow> throw TypeError s)"

definition Array_sort_matches ::
  "(RoleMatch \<Rightarrow> RoleMatch \<Rightarrow> rat option) \<Rightarrow> addr \<Rightarrow> addr action" where
  "Array_sort_matches comparefn a s =
     (case cells s a of
        Some (MatchArray ms) \<Rightarrow>
          (Inr a, s\<lparr>cells := (cells s)(a \<mapsto> MatchArray (array_sort comparefn ms))\<rparr>)
      | _ \<Rightarrow> throw TypeError s)"

definition Array_sort_objs :: "(obj \<Rightarrow> obj \<Rightarrow> rat option) \<Rightarrow> addr \<Rightarrow> addr action" where
  "Array_sort_objs comparefn a s =
     (case cells s a of
        Some (ObjArray es) \<Rightarrow>
          (Inr a, s\<lparr>cells := (cells s)(a \<mapsto> ObjArray (array_sort comparefn es))\<rparr>)
      | _ \<Rightarrow> throw TypeError s)"

definition Array_first :: "addr \<Rightarrow> RoleMatch option action" where
  "Array_first a s =
     (case cells s a of
        Some (MatchArray ms) \<Rightarrow> return (case ms of [] \<Rightarrow> None | m # _ \<Rightarrow> Some m) s
      | _ \<Rightarrow> throw TypeError s)"

definition Array_find_role :: "(RoleObject \<Rightarrow> bool) \<Rightarrow> addr \<Rightarrow> RoleObject option action" where
  "Array_find_role P a s =
     (case cells s a of
        Some (RoleArray rs) \<Rightarrow> return (find P rs) s
      | _ \<Rightarrow> throw TypeError s)"

definition Array_find_obj :: "(obj \<Rightarrow> bool) \<Rightarrow> addr \<Rightarrow> obj option action" where
  "Array_find_obj P a s =
     (case cells s a of
        Some (ObjArray es) \<Rightarrow> return (find P es) s
      | _ \<Rightarrow> throw TypeError s)"

definition Array_slice :: "nat \<Rightarrow> addr \<Rightarrow> addr action" where
  "Array_slice n a s =
     (case cells s a of
        Some (ObjArray es) \<Rightarrow> alloc (ObjArray (take n es)) s
      | _ \<Rightarrow> throw TypeError s)"

definition read_objs :: "addr \<Rightarrow> obj list action" where
  "read_objs a s =
     (case cells s a of
        Some (ObjArray es) \<Rightarrow> return es s
      | _ \<Rightarrow> throw TypeError s)"

text \<open>The two callbacks and the handler, as in the source, on addresses.\<close>

definition scoreRole_on :: "jsval list \<Rightarrow> RoleObject \<Rightarrow> RoleMatch action" where
  "scoreRole_on userSkills r =
     and_then (Array_filter (\<lambda>skill. array_includes userSkills (JStr skill)) (requiredSkillsAt r))
       (\<lambda>matchedSkills.
     and_then (Array_length matchedSkills) (\<lambda>count.
     and_then (Array_length (requiredSkillsAt r)) (\<lambda>total.
     return \<lparr>role = role r, matchCount = count, totalRequired = total\<rparr>)))"

definition missingEntry_on ::
  "(obj option \<Rightarrow> error + jsval) \<Rightarrow> addr \<Rightarrow> string \<Rightarrow> obj action" where
  "missingEntry_on calculateScore skillsDataAt skill =
     and_then (Array_find_obj (\<lambda>s. prop_get s ''name'' = JStr skill) skillsDataAt) (\<lambda>skillInfo.
       (case calculateScore skillInfo of
          Inl e \<Rightarrow> throw e
        | Inr score \<Rightarrow> return (spread [(''skill'', JStr skill), (''score'', score)] skillInfo)))"

definition recommendCareer_on ::
  "(obj option \<Rightarrow> error + jsval) \<Rightarrow> (jsval \<Rightarrow> rat option) \<Rightarrow> addr \<Rightarrow> addr \<Rightarrow>
     request \<Rightarrow> response action" where
  "recommendCareer_on calculateScore coerce rolesAt skillsDataAt req =
     (let userSkills = (case skills req of None \<Rightarrow> [] | Some xs \<Rightarrow> xs)
      in if length userSkills = 0
         then return \<lparr>status = 400, body = [(''message'', JStr ''Skills are required'')]\<rparr>
         else
           and_then (Array_map_roles (scoreRole_on userSkills) rolesAt) (\<lambda>mapped.
           and_then (Array_sort_matches byMatchCount mapped) (\<lambda>sorted.
           and_then (Array_first sorted) (\<lambda>first.
           and_then (Array_find_role
                       (\<lambda>r. case first of None \<Rightarrow> False | Some matched \<Rightarrow> role r = role matched)
                       rolesAt) (\<lambda>found.
           (case (first, found) of
              (Some matched, Some targetRole) \<Rightarrow>
                and_then (Array_filter (\<lambda>skill. \<not> array_includes userSkills (JStr skill))
                            (requiredSkillsAt targetRole)) (\<lambda>filtered.
                and_then (Array_map_strings (missingEntry_on calculateScore skillsDataAt) filtered)
                  (\<lambda>missing.
                and_then (Array_sort_objs (byScore coerce) missing) (\<lambda>sortedRecommendations.
                and_then (Array_slice 3 sortedRecommendations) (\<lambda>sliced.
                and_then (read_objs sliced) (\<lambda>recommended.
                return \<lparr>status = 200,
                       body =
                         [(''role'', JStr (role matched)),
                          (''matchPercentage'', matchPercentage matched),
                          (''recommendedSkills'', JArr (map JObj recommended))]\<rparr>)))))
            | _ \<Rightarrow> throw TypeError))))))"

text \<open>\<open>frame s s'\<close>: every array of \<open>s\<close> is in \<open>s'\<close> with the contents it had.
  \<open>ensures s0 m Q\<close>: the step \<open>m\<close> keeps the arrays of \<open>s0\<close>, and its result
  satisfies \<open>Q\<close>.\<close>

definition frame :: "store \<Rightarrow> store \<Rightarrow> bool" where
  "frame s s' = (fresh s \<le> fresh s' \<and> (\<forall>a<fresh s. cells s' a = cells s a))"

definition ensures :: "store \<Rightarrow> 'a action \<Rightarrow> ('a \<Rightarrow> bool) \<Rightarrow> bool" where
  "ensures s0 m Q =
     (\<forall>s r s'. frame s0 s \<longrightarrow> m s = (r, s') \<longrightarrow> frame s0 s' \<and> (\<forall>x. r = Inr x \<longrightarrow> Q x))"

text \<open>The store holds the Roles table \<open>roles\<close> at \<open>rolesAt\<close> and the Skills
  table \<open>skillsData\<close> at \<open>skillsDataAt\<close>.\<close>

definition role_at :: "store \<Rightarrow> RoleObject \<Rightarrow> Role \<Rightarrow> bool" where
  "role_at s r R =
     (role r = role R \<and> requiredSkillsAt r < fresh s
      \<and> cells s (requiredSkillsAt r) = Some (StringArray (requiredSkills R)))"

definition tables_at :: "store \<Rightarrow> addr \<Rightarrow> addr \<Rightarrow> Role list \<Rightarrow> obj list \<Rightarrow> bool" where
  "tables_at s rolesAt skillsDataAt roles skillsData =
     (\<exists>rs. rolesAt < fresh s \<and> cells s rolesAt = Some (RoleArray rs)
        \<and> list_all2 (role_at s) rs roles
        \<and> skillsDataAt < fresh s \<and> cells s skillsDataAt = Some (ObjArray skillsData))"

text \<open>The example tables in a store, and a request.\<close>

definition example_store :: store where
  "example_store =
     \<lparr>cells =
        [0 \<mapsto> StringArray [''Node'', ''SQL''],
         1 \<mapsto> StringArray [''React'', ''CSS''],
         2 \<mapsto> RoleArray [\<lparr>role = ''Backend Developer'', requiredSkillsAt = 0\<rparr>,
                         \<lparr>role = ''Frontend Developer'', requiredSkillsAt = 1\<rparr>],
         3 \<mapsto> ObjArray example_skills],
      fresh = 4\<rparr>"

definition css_request :: request where
  "css_request = \<lparr>skills = Some [JStr ''CSS'']\<rparr>"

definition empty_request :: request where
  "empty_request = \<lparr>skills = Some []\<rparr>"

section \<open>Objects and the spread\<close>

lemma map_of_prop_set: "map_of (prop_set k v ob) = (map_of ob)(k \<mapsto> v)"
  by (induction ob) (auto simp: fun_eq_iff)

lemma map_of_fold_prop_set:
  "map_of (fold (\<lambda>(k, v) acc. prop_set k v acc) ps target) = map_of target ++ map_of (rev ps)"
proof (induction ps arbitrary: target)
  case Nil
  then show ?case by simp
next
  case (Cons p ps)
  obtain k v where p: "p = (k, v)" by (cases p)
  have "map_of (fold (\<lambda>(k, v) acc. prop_set k v acc) (p # ps) target)
          = (map_of target)(k \<mapsto> v) ++ map_of (rev ps)"
    by (simp add: p Cons.IH map_of_prop_set fun_upd_def)
  also have "\<dots> = map_of target ++ map_of (rev (p # ps))"
    by (simp add: p map_add_upd_left fun_eq_iff map_add_def split: option.splits)
  finally show ?case .
qed

lemma map_of_rev_distinct: "distinct (map fst ps) \<Longrightarrow> map_of (rev ps) = map_of ps"
  by (simp add: map_of_inject_set distinct_map)

lemma prop_get_spread_None [simp]: "prop_get (spread target None) k = prop_get target k"
  by (simp add: spread_def)

lemma prop_get_spread_Some:
  "prop_get (spread target (Some ps)) k =
     (case map_of (rev ps) k of None \<Rightarrow> prop_get target k | Some v \<Rightarrow> v)"
  by (simp add: spread_def prop_get_def map_of_fold_prop_set map_add_def split: option.splits)

lemma map_of_rev_None: "map_of ps k = None \<Longrightarrow> map_of (rev ps) k = None"
  by (simp add: map_of_eq_None_iff)

section \<open>Mapping a callback that can throw\<close>

lemma array_map_list_all2:
  "array_map f xs = Inr ys \<Longrightarrow> list_all2 (\<lambda>x y. f x = Inr y) xs ys"
  by (induction xs arbitrary: ys) (auto split: sum.splits)

lemma find_name_props:
  "find P xs = Some x \<Longrightarrow> P x \<and> x \<in> set xs"
  by (auto simp: find_Some_iff)

lemma array_map_total:
  assumes "\<And>x. \<exists>y. f x = Inr y"
  shows "\<exists>ys. array_map f xs = Inr ys"
proof (induction xs)
  case Nil
  then show ?case by simp
next
  case (Cons x xs)
  from assms obtain y where "f x = Inr y" by blast
  with Cons show ?case by auto
qed

section \<open>The stable sort\<close>

lemma array_sort_Nil [simp]: "array_sort c [] = []"
  by (simp add: array_sort_def)

lemma array_sort_Cons: "array_sort c (x # xs) = sort_insert c x (array_sort c xs)"
  by (simp add: array_sort_def)

lemma set_sort_insert [simp]: "set (sort_insert c x ys) = insert x (set ys)"
  by (induction ys) auto

lemma length_sort_insert [simp]: "length (sort_insert c x ys) = Suc (length ys)"
  by (induction ys) auto

lemma set_array_sort [simp]: "set (array_sort c xs) = set xs"
  by (induction xs) (auto simp: array_sort_Cons)

lemma length_array_sort [simp]: "length (array_sort c xs) = length xs"
  by (induction xs) (auto simp: array_sort_Cons)

lemma array_sort_eq_Nil [simp]: "array_sort c xs = [] \<longleftrightarrow> xs = []"
  using length_array_sort [of c xs] by (metis length_0_conv)

lemma hd_sort_insert:
  "hd (sort_insert c x ys) = (if ys = [] \<or> SortCompare c x (hd ys) \<le> 0 then x else hd ys)"
  by (cases ys) auto

text \<open>The head of a descending stable sort is the first element of greatest key.\<close>

lemma hd_array_sort_first_max:
  fixes key :: "'a \<Rightarrow> nat"
  assumes cmp: "\<And>a b. SortCompare c a b \<le> 0 \<longleftrightarrow> key b \<le> key a"
    and ne: "xs \<noteq> []"
  shows "\<exists>i<length xs. hd (array_sort c xs) = xs ! i
           \<and> (\<forall>j<length xs. key (xs ! j) \<le> key (xs ! i))
           \<and> (\<forall>j<i. key (xs ! j) < key (xs ! i))"
  using ne
proof (induction xs)
  case Nil
  then show ?case by simp
next
  case (Cons x xs)
  show ?case
  proof (cases "xs = []")
    case True
    then show ?thesis by (simp add: array_sort_Cons)
  next
    case False
    from Cons.IH [OF False] obtain i where i: "i < length xs"
      and hd: "hd (array_sort c xs) = xs ! i"
      and mx: "\<forall>j<length xs. key (xs ! j) \<le> key (xs ! i)"
      and fst: "\<forall>j<i. key (xs ! j) < key (xs ! i)"
      by blast
    show ?thesis
    proof (cases "key (xs ! i) \<le> key x")
      case True
      then have "hd (array_sort c (x # xs)) = x"
        by (simp add: array_sort_Cons hd_sort_insert hd cmp)
      moreover have "\<forall>j<length (x # xs). key ((x # xs) ! j) \<le> key x"
      proof (intro allI impI)
        fix j assume "j < length (x # xs)"
        then show "key ((x # xs) ! j) \<le> key x"
          using mx True by (cases j) (auto intro: order_trans)
      qed
      ultimately show ?thesis
        by (intro exI [of _ 0]) simp
    next
      case lt: False
      then have "hd (array_sort c (x # xs)) = (x # xs) ! Suc i"
        using False by (simp add: array_sort_Cons hd_sort_insert hd cmp)
      moreover have "\<forall>j<length (x # xs). key ((x # xs) ! j) \<le> key ((x # xs) ! Suc i)"
      proof (intro allI impI)
        fix j assume "j < length (x # xs)"
        then show "key ((x # xs) ! j) \<le> key ((x # xs) ! Suc i)"
          using mx lt by (cases j) auto
      qed
      moreover have "\<forall>j<Suc i. key ((x # xs) ! j) < key ((x # xs) ! Suc i)"
      proof (intro allI impI)
        fix j assume "j < Suc i"
        then show "key ((x # xs) ! j) < key ((x # xs) ! Suc i)"
          using fst lt by (cases j) auto
      qed
      ultimately show ?thesis
        using i by (intro exI [of _ "Suc i"]) simp
    qed
  qed
qed

lemma SortCompare_byMatchCount:
  "SortCompare byMatchCount a b \<le> 0 \<longleftrightarrow> matchCount b \<le> matchCount a"
  by (simp add: SortCompare_def byMatchCount_def)

lemma matchedRole_first_max:
  assumes "roles \<noteq> []"
  shows "\<exists>i<length roles. matchedRole roles userSkills = Some (scoreRole userSkills (roles ! i))
           \<and> (\<forall>j<length roles. matchCount (scoreRole userSkills (roles ! j))
                                  \<le> matchCount (scoreRole userSkills (roles ! i)))
           \<and> (\<forall>j<i. matchCount (scoreRole userSkills (roles ! j))
                        < matchCount (scoreRole userSkills (roles ! i)))"
proof -
  let ?ms = "map (scoreRole userSkills) roles"
  have ne: "?ms \<noteq> []" using assms by simp
  from hd_array_sort_first_max [of byMatchCount matchCount ?ms, OF SortCompare_byMatchCount ne]
  obtain i where i: "i < length roles"
    and hd: "hd (array_sort byMatchCount ?ms) = ?ms ! i"
    and mx: "\<forall>j<length ?ms. matchCount (?ms ! j) \<le> matchCount (?ms ! i)"
    and fst: "\<forall>j<i. matchCount (?ms ! j) < matchCount (?ms ! i)"
    by auto
  have "array_sort byMatchCount ?ms \<noteq> []" using ne by simp
  then have "matchedRole roles userSkills = Some (hd (array_sort byMatchCount ?ms))"
    by (cases "array_sort byMatchCount ?ms") (simp_all add: matchedRole_def)
  then have "matchedRole roles userSkills = Some (scoreRole userSkills (roles ! i))"
    using hd i by simp
  moreover have "\<forall>j<length roles. matchCount (scoreRole userSkills (roles ! j))
                                  \<le> matchCount (scoreRole userSkills (roles ! i))"
    using mx i by simp
  moreover have "\<forall>j<i. matchCount (scoreRole userSkills (roles ! j))
                        < matchCount (scoreRole userSkills (roles ! i))"
    using fst i by simp
  ultimately show ?thesis using i by blast
qed

lemma role_scoreRole [simp]: "role (scoreRole us r) = role r"
  by (simp add: scoreRole_def Let_def)

lemma matchCount_scoreRole:
  "matchCount (scoreRole us r) = length (filter (\<lambda>s. JStr s \<in> set us) (requiredSkills r))"
  by (simp add: scoreRole_def Let_def array_includes_def)

lemma find_same_role:
  "r \<in> set roles \<Longrightarrow> \<exists>t. find (\<lambda>x. role x = role r) roles = Some t \<and> role t = role r \<and> t \<in> set roles"
  by (cases "find (\<lambda>x. role x = role r) roles") (auto simp: find_None_iff dest: find_Some_iff [THEN iffD1] simp: in_set_conv_nth)

lemma sort_insert_insort_key:
  fixes key :: "'a \<Rightarrow> rat"
  assumes "\<forall>y\<in>set ys. SortCompare c x y \<le> 0 \<longleftrightarrow> key x \<le> key y"
  shows "sort_insert c x ys = insort_key key x ys"
  using assms by (induction ys) auto

lemma array_sort_sort_key:
  fixes key :: "'a \<Rightarrow> rat"
  assumes "\<forall>x\<in>set xs. \<forall>y\<in>set xs. SortCompare c x y \<le> 0 \<longleftrightarrow> key x \<le> key y"
  shows "array_sort c xs = sort_key key xs"
  using assms
proof (induction xs)
  case Nil
  then show ?case by simp
next
  case (Cons x xs)
  then have "array_sort c xs = sort_key key xs" by simp
  moreover have "sort_insert c x (sort_key key xs) = insort_key key x (sort_key key xs)"
    using Cons.prems by (intro sort_insert_insort_key) simp
  ultimately show ?case by (simp add: array_sort_Cons)
qed

lemma mset_sort_insert [simp]: "mset (sort_insert c x ys) = add_mset x (mset ys)"
  by (induction ys) auto

lemma mset_array_sort [simp]: "mset (array_sort c xs) = mset xs"
  by (induction xs) (auto simp: array_sort_Cons)

section \<open>Rejected requests\<close>

text \<open>
  C5. A request whose body has no \<open>skills\<close> field, or an empty array there, is
  answered with status 400 and the body \<open>{"message": "Skills are required"}\<close>,
  whatever the tables and the scoring function are, also an empty Roles table, on
  which role matching would throw, and a scoring function that throws. The store is
  left as it was, without the array that \<open>roles.map\<close> would have made: none of
  role matching, scoring and ranking has run.
\<close>

theorem empty_skills_rejected:
  "skills req = None \<or> skills req = Some [] \<Longrightarrow>
     recommendCareer calculateScore coerce roles skillsData req =
       Inr \<lparr>status = 400, body = [(''message'', JStr ''Skills are required'')]\<rparr>
     \<and> recommendCareer_on calculateScore coerce rolesAt skillsDataAt req s =
         (Inr \<lparr>status = 400, body = [(''message'', JStr ''Skills are required'')]\<rparr>, s)"
  by (auto simp: recommendCareer_def recommendCareer_on_def return_def)

theorem empty_skills_rejected_witness:
  "skills empty_request = Some []
   \<and> recommendCareer throwing_score example_coerce [] [] empty_request =
       Inr \<lparr>status = 400, body = [(''message'', JStr ''Skills are required'')]\<rparr>
   \<and> recommendCareer_on throwing_score example_coerce 2 3 empty_request example_store =
       (Inr \<lparr>status = 400, body = [(''message'', JStr ''Skills are required'')]\<rparr>,
        example_store)
   \<and> recommendCareer throwing_score example_coerce [] [] css_request = Inl TypeError
   \<and> fresh example_store = 4
   \<and> fresh (snd (recommendCareer_on example_score example_coerce 2 3 css_request example_store))
       = 10"
proof -
  have e: "skills empty_request = Some []" by (simp add: empty_request_def)
  then have "skills empty_request = None \<or> skills empty_request = Some []" ..
  note rejected = empty_skills_rejected
      [OF this, of throwing_score example_coerce "[]" "[]" 2 3 example_store]
  have t: "recommendCareer throwing_score example_coerce [] [] css_request = Inl TypeError"
    by code_simp
  have f: "fresh example_store = 4" by (simp add: example_store_def)
  have g: "fresh (snd (recommendCareer_on example_score example_coerce 2 3 css_request
                         example_store)) = 10"
    by code_simp
  show ?thesis
    by (intro conjI e rejected [THEN conjunct1] rejected [THEN conjunct2] t f g)
qed

section \<open>Role selection\<close>

lemma lookup_matched_role:
  assumes "roles \<noteq> []"
  shows "\<exists>matched targetRole.
       matchedRole roles userSkills = Some matched
       \<and> find (\<lambda>r. role r = role matched) roles = Some targetRole
       \<and> targetRole \<in> set roles \<and> role targetRole = role matched"
proof -
  from matchedRole_first_max [OF assms, of userSkills]
  obtain i where i: "i < length roles"
    and m: "matchedRole roles userSkills = Some (scoreRole userSkills (roles ! i))"
    by blast
  from i have "roles ! i \<in> set roles" by simp
  from find_same_role [OF this] m show ?thesis by auto
qed

lemma recommendCareer_Inr_cases:
  assumes "skills req = Some userSkills" and "userSkills \<noteq> []"
    and "recommendCareer calculateScore coerce roles skillsData req = Inr resp"
  obtains matched targetRole missing where
    "matchedRole roles userSkills = Some matched"
    "find (\<lambda>r. role r = role matched) roles = Some targetRole"
    "missingSkills calculateScore skillsData userSkills targetRole = Inr missing"
    "resp = \<lparr>status = 200,
             body = [(''role'', JStr (role matched)),
                     (''matchPercentage'', matchPercentage matched),
                     (''recommendedSkills'',
                        JArr (map JObj (take 3 (array_sort (byScore coerce) missing))))]\<rparr>"
  using assms
  by (auto simp: recommendCareer_def Let_def split: option.splits sum.splits)



text \<open>
  C1. For a non-empty \<open>userSkills\<close> and a non-empty Roles table, the role named in
  the response is that of the first role of the table, in its stored order, whose
  match count (the number of its \<open>requiredSkills\<close> found in \<open>userSkills\<close>) is
  maximal: no role has a greater count and every role before it has a smaller one, so
  a tie goes to the role listed first.
\<close>

theorem first_maximal_role_chosen:
  assumes "skills req = Some userSkills" and "userSkills \<noteq> []" and "roles \<noteq> []"
    and "recommendCareer calculateScore coerce roles skillsData req = Inr resp"
  shows "\<exists>i<length roles.
           prop_get (body resp) ''role'' = JStr (role (roles ! i))
           \<and> (\<forall>j<length roles.
                  length (filter (\<lambda>s. JStr s \<in> set userSkills) (requiredSkills (roles ! j)))
                  \<le> length (filter (\<lambda>s. JStr s \<in> set userSkills) (requiredSkills (roles ! i))))
           \<and> (\<forall>j<i.
                  length (filter (\<lambda>s. JStr s \<in> set userSkills) (requiredSkills (roles ! j)))
                  < length (filter (\<lambda>s. JStr s \<in> set userSkills) (requiredSkills (roles ! i))))"
proof -
  from matchedRole_first_max [OF assms(3), of userSkills]
  obtain i where i: "i < length roles"
    and m: "matchedRole roles userSkills = Some (scoreRole userSkills (roles ! i))"
    and mx: "\<forall>j<length roles. matchCount (scoreRole userSkills (roles ! j))
                                  \<le> matchCount (scoreRole userSkills (roles ! i))"
    and fst: "\<forall>j<i. matchCount (scoreRole userSkills (roles ! j))
                        < matchCount (scoreRole userSkills (roles ! i))"
    by blast
  have "prop_get (body resp) ''role'' = JStr (role (roles ! i))"
    using assms(1,2,4) m
    by (auto simp: recommendCareer_def Let_def prop_get_def split: option.splits sum.splits)
  then show ?thesis
    using i mx fst unfolding matchCount_scoreRole by blast
qed

theorem first_maximal_role_chosen_witness:
  "recommendCareer example_score example_coerce example_roles example_skills
       \<lparr>skills = Some [JStr ''React'', JStr ''Node'']\<rparr> =
     Inr \<lparr>status = 200,
          body =
            [(''role'', JStr ''Backend Developer''),
             (''matchPercentage'', JNum 50),
             (''recommendedSkills'',
                JArr [JObj [(''skill'', JStr ''SQL''), (''score'', JNum 9),
                            (''name'', JStr ''SQL''), (''demand'', JNum 9)]])]\<rparr>
   \<and> (\<exists>i<length example_roles.
         JStr ''Backend Developer'' = JStr (role (example_roles ! i))
         \<and> (\<forall>j<length example_roles.
                length (filter (\<lambda>s. JStr s \<in> set [JStr ''React'', JStr ''Node''])
                          (requiredSkills (example_roles ! j)))
                \<le> length (filter (\<lambda>s. JStr s \<in> set [JStr ''React'', JStr ''Node''])
                            (requiredSkills (example_roles ! i))))
         \<and> (\<forall>j<i.
                length (filter (\<lambda>s. JStr s \<in> set [JStr ''React'', JStr ''Node''])
                          (requiredSkills (example_roles ! j)))
                < length (filter (\<lambda>s. JStr s \<in> set [JStr ''React'', JStr ''Node''])
                            (requiredSkills (example_roles ! i)))))"
proof -
  let ?req = "\<lparr>skills = Some [JStr ''React'', JStr ''Node'']\<rparr>"
  let ?resp = "\<lparr>status = 200,
          body =
            [(''role'', JStr ''Backend Developer''),
             (''matchPercentage'', JNum 50),
             (''recommendedSkills'',
                JArr [JObj [(''skill'', JStr ''SQL''), (''score'', JNum 9),
                            (''name'', JStr ''SQL''), (''demand'', JNum 9)]])]\<rparr>"
  have run: "recommendCareer example_score example_coerce example_roles example_skills ?req = Inr ?resp"
    by code_simp
  have ne: "example_roles \<noteq> []" by (simp add: example_roles_def)
  have "skills ?req = Some [JStr ''React'', JStr ''Node'']" by simp
  from first_maximal_role_chosen [OF this _ ne run]
  show ?thesis using run by (simp add: prop_get_def)
qed

section \<open>The missing skills\<close>

lemma missingEntry_Inr:
  assumes "missingEntry calculateScore skillsData skill = Inr e"
  shows "\<exists>score. calculateScore (find (\<lambda>s. prop_get s ''name'' = JStr skill) skillsData) = Inr score
           \<and> e = spread [(''skill'', JStr skill), (''score'', score)]
                   (find (\<lambda>s. prop_get s ''name'' = JStr skill) skillsData)"
  using assms by (auto simp: missingEntry_def Let_def split: sum.splits)

lemma entry_names_its_skill:
  assumes "missingEntry calculateScore skillsData skill = Inr e"
    and "\<forall>s\<in>set skillsData. map_of s ''skill'' = None"
  shows "prop_get e ''skill'' = JStr skill"
proof -
  let ?info = "find (\<lambda>s. prop_get s ''name'' = JStr skill) skillsData"
  from missingEntry_Inr [OF assms(1)] obtain score where
    e: "e = spread [(''skill'', JStr skill), (''score'', score)] ?info"
    by blast
  show ?thesis
  proof (cases ?info)
    case None
    then show ?thesis by (simp add: e) (simp add: prop_get_def)
  next
    case (Some info)
    then have "info \<in> set skillsData" by (auto dest: find_name_props)
    with assms(2) have "map_of (rev info) ''skill'' = None" by (simp add: map_of_rev_None)
    then show ?thesis by (simp add: e Some prop_get_spread_Some) (simp add: prop_get_def)
  qed
qed

text \<open>
  C3, as stated, fails: the metadata of Docker carries a \<open>skill\<close> field, the spread
  writes it over the name, and the response recommends Kubernetes, which the matched
  role does not require.
\<close>

theorem recommended_skill_not_required_counterexample:
  "recommendCareer example_score example_coerce backend_roles [docker_renamed]
       \<lparr>skills = Some [JStr ''Node'']\<rparr> =
     Inr \<lparr>status = 200,
          body =
            [(''role'', JStr ''Backend Developer''),
             (''matchPercentage'', JNum 33),
             (''recommendedSkills'',
                JArr [JObj [(''skill'', JStr ''Kubernetes''), (''score'', JNum 7),
                            (''name'', JStr ''Docker''), (''demand'', JNum 7)],
                      JObj [(''skill'', JStr ''SQL''), (''score'', JNum 0)]])]\<rparr>
   \<and> backend_roles =
       [\<lparr>role = ''Backend Developer'', requiredSkills = [''Node'', ''SQL'', ''Docker'']\<rparr>]
   \<and> ''Kubernetes'' \<notin> set [''Node'', ''SQL'', ''Docker'']"
proof -
  have "recommendCareer example_score example_coerce backend_roles [docker_renamed]
       \<lparr>skills = Some [JStr ''Node'']\<rparr> =
     Inr \<lparr>status = 200,
          body =
            [(''role'', JStr ''Backend Developer''),
             (''matchPercentage'', JNum 33),
             (''recommendedSkills'',
                JArr [JObj [(''skill'', JStr ''Kubernetes''), (''score'', JNum 7),
                            (''name'', JStr ''Docker''), (''demand'', JNum 7)],
                      JObj [(''skill'', JStr ''SQL''), (''score'', JNum 0)]])]\<rparr>"
    by code_simp
  then show ?thesis by (simp add: backend_roles_def)
qed

text \<open>
  C3, amended. When no entry of the Skills table has a property named \<open>skill\<close>,
  every entry of \<open>recommendedSkills\<close> names a skill that is one of the
  \<open>requiredSkills\<close> of the role the table lists first under the name in the response
  (the matched role, role names being unique) and that is not in \<open>userSkills\<close>.
\<close>

theorem recommended_skills_are_missing_skills:
  assumes "skills req = Some userSkills" and "userSkills \<noteq> []"
    and "recommendCareer calculateScore coerce roles skillsData req = Inr resp"
    and "\<forall>s\<in>set skillsData. map_of s ''skill'' = None"
  shows "\<exists>name targetRole entries.
           prop_get (body resp) ''role'' = JStr name
           \<and> find (\<lambda>r. role r = name) roles = Some targetRole
           \<and> prop_get (body resp) ''recommendedSkills'' = JArr (map JObj entries)
           \<and> (\<forall>e\<in>set entries. \<exists>skill.
                  prop_get e ''skill'' = JStr skill
                  \<and> skill \<in> set (requiredSkills targetRole)
                  \<and> JStr skill \<notin> set userSkills)"
proof -
  from assms(1-3) obtain matched targetRole missing where
    tr: "find (\<lambda>r. role r = role matched) roles = Some targetRole"
    and ms: "missingSkills calculateScore skillsData userSkills targetRole = Inr missing"
    and resp: "resp = \<lparr>status = 200,
             body = [(''role'', JStr (role matched)),
                     (''matchPercentage'', matchPercentage matched),
                     (''recommendedSkills'',
                        JArr (map JObj (take 3 (array_sort (byScore coerce) missing))))]\<rparr>"
    by (rule recommendCareer_Inr_cases)
  let ?names = "filter (\<lambda>skill. \<not> array_includes userSkills (JStr skill)) (requiredSkills targetRole)"
  let ?entries = "take 3 (array_sort (byScore coerce) missing)"
  from ms have all2: "list_all2 (\<lambda>x y. missingEntry calculateScore skillsData x = Inr y) ?names missing"
    by (simp add: missingSkills_def array_map_list_all2)
  have "\<exists>skill. prop_get e ''skill'' = JStr skill
                  \<and> skill \<in> set (requiredSkills targetRole)
                  \<and> JStr skill \<notin> set userSkills" if "e \<in> set ?entries" for e
  proof -
    from that have "e \<in> set missing" by (auto dest: in_set_takeD)
    then obtain i where i: "i < length missing" and ei: "e = missing ! i"
      by (auto simp: in_set_conv_nth)
    from all2 i have len: "i < length ?names"
      and mk: "missingEntry calculateScore skillsData (?names ! i) = Inr e"
      by (auto simp: list_all2_conv_all_nth ei)
    from len have "?names ! i \<in> set ?names" by (rule nth_mem)
    then have "?names ! i \<in> set (requiredSkills targetRole)" "JStr (?names ! i) \<notin> set userSkills"
      by (auto simp: array_includes_def)
    moreover from entry_names_its_skill [OF mk assms(4)]
    have "prop_get e ''skill'' = JStr (?names ! i)" .
    ultimately show ?thesis by blast
  qed
  then show ?thesis
    using tr by (intro exI [of _ "role matched"] exI [of _ targetRole] exI [of _ ?entries])
      (simp add: resp prop_get_def)
qed

theorem recommended_skills_are_missing_skills_witness:
  "list_all (\<lambda>s. map_of s ''skill'' = None) example_skills
   \<and> (\<exists>name targetRole entries.
         JStr ''Frontend Developer'' = JStr name
         \<and> find (\<lambda>r. role r = name) example_roles = Some targetRole
         \<and> JArr [JObj [(''skill'', JStr ''React''), (''score'', JNum 0)]] = JArr (map JObj entries)
         \<and> (\<forall>e\<in>set entries. \<exists>skill.
                prop_get e ''skill'' = JStr skill
                \<and> skill \<in> set (requiredSkills targetRole)
                \<and> JStr skill \<notin> set [JStr ''CSS'']))"
proof -
  let ?req = "\<lparr>skills = Some [JStr ''CSS'']\<rparr>"
  let ?resp = "\<lparr>status = 200,
          body =
            [(''role'', JStr ''Frontend Developer''),
             (''matchPercentage'', JNum 50),
             (''recommendedSkills'',
                JArr [JObj [(''skill'', JStr ''React''), (''score'', JNum 0)]])]\<rparr>"
  have run: "recommendCareer example_score example_coerce example_roles example_skills ?req = Inr ?resp"
    by code_simp
  have noskill: "\<forall>s\<in>set example_skills. map_of s ''skill'' = None"
    by (simp add: example_skills_def)
  have "skills ?req = Some [JStr ''CSS'']" by simp
  from recommended_skills_are_missing_skills [OF this _ run noskill] noskill
  show ?thesis by (simp add: prop_get_def list_all_iff)
qed

lemma missingEntry_fields:
  assumes mk: "missingEntry calculateScore skillsData skill = Inr e"
    and keys: "\<forall>s\<in>set skillsData. distinct (map fst s)"
  shows "\<exists>score.
           calculateScore (find (\<lambda>s. prop_get s ''name'' = JStr skill) skillsData) = Inr score
           \<and> prop_get e ''score'' =
               (case find (\<lambda>s. prop_get s ''name'' = JStr skill) skillsData of
                  None \<Rightarrow> score
                | Some skillInfo \<Rightarrow>
                    (case map_of skillInfo ''score'' of None \<Rightarrow> score | Some v \<Rightarrow> v))
           \<and> prop_get e ''skill'' =
               (case find (\<lambda>s. prop_get s ''name'' = JStr skill) skillsData of
                  None \<Rightarrow> JStr skill
                | Some skillInfo \<Rightarrow>
                    (case map_of skillInfo ''skill'' of None \<Rightarrow> JStr skill | Some v \<Rightarrow> v))"
proof -
  let ?info = "find (\<lambda>s. prop_get s ''name'' = JStr skill) skillsData"
  from missingEntry_Inr [OF mk] obtain score where
    sc: "calculateScore ?info = Inr score"
    and e: "e = spread [(''skill'', JStr skill), (''score'', score)] ?info"
    by blast
  show ?thesis
  proof (cases ?info)
    case None
    have "prop_get e ''score'' = score" "prop_get e ''skill'' = JStr skill"
      by (simp_all add: e None) (simp_all add: prop_get_def)
    with sc show ?thesis by (simp add: None)
  next
    case (Some skillInfo)
    then have "skillInfo \<in> set skillsData" by (auto dest: find_name_props)
    with keys have "distinct (map fst skillInfo)" by blast
    then have rev: "map_of (rev skillInfo) = map_of skillInfo" by (rule map_of_rev_distinct)
    have "prop_get e ''score'' = (case map_of skillInfo ''score'' of None \<Rightarrow> score | Some v \<Rightarrow> v)"
      by (simp add: e Some prop_get_spread_Some rev split: option.splits) (simp add: prop_get_def)
    moreover have "prop_get e ''skill'' =
                     (case map_of skillInfo ''skill'' of None \<Rightarrow> JStr skill | Some v \<Rightarrow> v)"
      by (simp add: e Some prop_get_spread_Some rev split: option.splits) (simp add: prop_get_def)
    ultimately show ?thesis using sc by (simp add: Some)
  qed
qed

text \<open>
  C6. Under the contract of the scoring function, a request with a non-empty
  \<open>userSkills\<close> on a non-empty Roles table is answered with status 200 whatever the
  Skills table holds, and a required skill without an entry there gets the entry
  \<open>{ skill, score }\<close> with the score the function gives to \<open>undefined\<close>:
  \<open>find\<close> returns \<open>undefined\<close> and spreading it adds nothing.
\<close>

theorem unknown_skill_metadata_tolerated:
  assumes "scoring_contract calculateScore"
    and "skills req = Some userSkills" and "userSkills \<noteq> []" and "roles \<noteq> []"
  shows "(\<exists>resp. recommendCareer calculateScore coerce roles skillsData req = Inr resp
            \<and> status resp = 200)
         \<and> (\<forall>skill. find (\<lambda>s. prop_get s ''name'' = JStr skill) skillsData = None \<longrightarrow>
               (\<exists>r. calculateScore None = Inr (JNum r)
                  \<and> missingEntry calculateScore skillsData skill =
                      Inr [(''skill'', JStr skill), (''score'', JNum r)]))"
proof
  from lookup_matched_role [OF assms(4), of userSkills]
  obtain matched targetRole where
    m: "matchedRole roles userSkills = Some matched"
    and t: "find (\<lambda>r. role r = role matched) roles = Some targetRole"
    by blast
  have "\<exists>e. missingEntry calculateScore skillsData skill = Inr e" for skill
  proof -
    from assms(1) obtain r where
      "calculateScore (find (\<lambda>s. prop_get s ''name'' = JStr skill) skillsData) = Inr (JNum r)"
      unfolding scoring_contract_def by blast
    then show ?thesis by (simp add: missingEntry_def)
  qed
  then obtain missing where
    "missingSkills calculateScore skillsData userSkills targetRole = Inr missing"
    unfolding missingSkills_def using array_map_total by blast
  with m t assms(2,3)
  show "\<exists>resp. recommendCareer calculateScore coerce roles skillsData req = Inr resp
            \<and> status resp = 200"
    by (simp add: recommendCareer_def)
next
  show "\<forall>skill. find (\<lambda>s. prop_get s ''name'' = JStr skill) skillsData = None \<longrightarrow>
               (\<exists>r. calculateScore None = Inr (JNum r)
                  \<and> missingEntry calculateScore skillsData skill =
                      Inr [(''skill'', JStr skill), (''score'', JNum r)])"
  proof (intro allI impI)
    fix skill
    assume none: "find (\<lambda>s. prop_get s ''name'' = JStr skill) skillsData = None"
    from assms(1) obtain r where r: "calculateScore None = Inr (JNum r)"
      unfolding scoring_contract_def by blast
    then have "missingEntry calculateScore skillsData skill =
                      Inr [(''skill'', JStr skill), (''score'', JNum r)]"
      using none by (simp add: missingEntry_def spread_def)
    with r show "\<exists>r. calculateScore None = Inr (JNum r)
                  \<and> missingEntry calculateScore skillsData skill =
                      Inr [(''skill'', JStr skill), (''score'', JNum r)]"
      by blast
  qed
qed

theorem unknown_skill_metadata_tolerated_witness:
  "scoring_contract example_score
   \<and> find (\<lambda>s. prop_get s ''name'' = JStr ''React'') example_skills = None
   \<and> recommendCareer example_score example_coerce example_roles example_skills
        \<lparr>skills = Some [JStr ''CSS'']\<rparr> =
      Inr \<lparr>status = 200,
           body =
             [(''role'', JStr ''Frontend Developer''),
              (''matchPercentage'', JNum 50),
              (''recommendedSkills'',
                 JArr [JObj [(''skill'', JStr ''React''), (''score'', JNum 0)]])]\<rparr>
   \<and> missingEntry example_score example_skills ''React'' =
        Inr [(''skill'', JStr ''React''), (''score'', JNum 0)]"
proof -
  let ?req = "\<lparr>skills = Some [JStr ''CSS'']\<rparr>"
  have c: "scoring_contract example_score"
    unfolding scoring_contract_def example_score_def
    by (auto split: option.splits jsval.splits)
  have n: "find (\<lambda>s. prop_get s ''name'' = JStr ''React'') example_skills = None"
    by (simp add: example_skills_def prop_get_def)
  have ne: "example_roles \<noteq> []" by (simp add: example_roles_def)
  have z: "example_score None = Inr (JNum 0)" by (simp add: example_score_def)
  have run: "recommendCareer example_score example_coerce example_roles example_skills ?req =
      Inr \<lparr>status = 200,
           body =
             [(''role'', JStr ''Frontend Developer''),
              (''matchPercentage'', JNum 50),
              (''recommendedSkills'',
                 JArr [JObj [(''skill'', JStr ''React''), (''score'', JNum 0)]])]\<rparr>"
    by code_simp
  have "skills ?req = Some [JStr ''CSS'']" by simp
  from unknown_skill_metadata_tolerated [OF c this _ ne, of example_coerce example_skills]
  have "\<exists>r. example_score None = Inr (JNum r)
          \<and> missingEntry example_score example_skills ''React'' =
               Inr [(''skill'', JStr ''React''), (''score'', JNum r)]"
    using n by simp
  with z c n run show ?thesis by simp
qed

section \<open>The ranking\<close>

lemma SortCompare_byScore:
  assumes "prop_get a ''score'' = JNum x" and "prop_get b ''score'' = JNum y"
  shows "SortCompare (byScore coerce) a b \<le> 0 \<longleftrightarrow> y \<le> x"
  using assms by (simp add: SortCompare_def byScore_def js_minus_def)

lemma array_sort_byScore:
  assumes num: "\<forall>e\<in>set xs. \<exists>x. prop_get e ''score'' = JNum x"
  shows "array_sort (byScore coerce) xs =
           sort_key (\<lambda>e. case prop_get e ''score'' of JNum x \<Rightarrow> - x | _ \<Rightarrow> 0) xs"
proof (rule array_sort_sort_key, intro ballI)
  fix a b assume "a \<in> set xs" "b \<in> set xs"
  with num obtain x y where "prop_get a ''score'' = JNum x" "prop_get b ''score'' = JNum y"
    by blast
  then show "SortCompare (byScore coerce) a b \<le> 0 \<longleftrightarrow>
       (case prop_get a ''score'' of JNum x \<Rightarrow> - x | _ \<Rightarrow> 0)
         \<le> (case prop_get b ''score'' of JNum x \<Rightarrow> - x | _ \<Rightarrow> 0)"
    by (simp add: SortCompare_byScore)
qed

lemma ranked_by_score_field:
  assumes num: "\<forall>e\<in>set xs. \<exists>x. prop_get e ''score'' = JNum x"
  shows "sorted_wrt (\<lambda>a b. \<exists>x y. prop_get a ''score'' = JNum x \<and> prop_get b ''score'' = JNum y \<and> y \<le> x)
           (array_sort (byScore coerce) xs)"
    and "filter (\<lambda>e. prop_get e ''score'' = v) (array_sort (byScore coerce) xs)
           = filter (\<lambda>e. prop_get e ''score'' = v) xs"
proof -
  let ?key = "\<lambda>e. case prop_get e ''score'' of JNum x \<Rightarrow> - x | _ \<Rightarrow> (0::rat)"
  have eq: "array_sort (byScore coerce) xs = sort_key ?key xs"
    using num by (rule array_sort_byScore)
  have "sorted (map ?key (sort_key ?key xs))" by (rule sorted_sort_key)
  then have "sorted_wrt (\<lambda>a b. ?key a \<le> ?key b) (sort_key ?key xs)"
    by (simp add: sorted_map)
  moreover have "\<exists>x y. prop_get a ''score'' = JNum x \<and> prop_get b ''score'' = JNum y \<and> y \<le> x"
    if "a \<in> set (sort_key ?key xs)" "b \<in> set (sort_key ?key xs)" "?key a \<le> ?key b" for a b
  proof -
    from that(1,2) have "a \<in> set xs" "b \<in> set xs" by simp_all
    with num obtain x y where "prop_get a ''score'' = JNum x" "prop_get b ''score'' = JNum y"
      by blast
    with that(3) show ?thesis by simp
  qed
  ultimately show "sorted_wrt (\<lambda>a b. \<exists>x y. prop_get a ''score'' = JNum x \<and> prop_get b ''score'' = JNum y \<and> y \<le> x)
           (array_sort (byScore coerce) xs)"
    unfolding eq by (rule sorted_wrt_mono_rel [rotated]) blast
  show "filter (\<lambda>e. prop_get e ''score'' = v) (array_sort (byScore coerce) xs)
           = filter (\<lambda>e. prop_get e ''score'' = v) xs"
  proof (cases "\<exists>x. v = JNum x")
    case True
    then obtain x where v: "v = JNum x" ..
    have "filter (\<lambda>e. prop_get e ''score'' = v) (sort_key ?key xs)
            = filter (\<lambda>e. ?key e = - x) (sort_key ?key xs)"
      using num by (intro filter_cong refl) (auto simp: v)
    also have "\<dots> = filter (\<lambda>e. ?key e = - x) xs" by (rule sort_key_stable)
    also have "\<dots> = filter (\<lambda>e. prop_get e ''score'' = v) xs"
      using num by (intro filter_cong refl) (auto simp: v)
    finally show ?thesis by (simp add: eq)
  next
    case False
    have "filter (\<lambda>e. prop_get e ''score'' = v) ys = []" if "set ys = set xs" for ys
      using num that False by (auto simp: filter_empty_conv)
    then show ?thesis by simp
  qed
qed

text \<open>
  C4, as stated, fails: the scoring function gives SQL 9 and Docker 7, but the
  metadata of SQL carries \<open>score: 1\<close>, which replaces the 9, and the response lists
  Docker before SQL.
\<close>

theorem ranking_by_computed_score_counterexample:
  "recommendCareer example_score example_coerce backend_roles [sql_info, docker_info]
       \<lparr>skills = Some [JStr ''Node'']\<rparr> =
     Inr \<lparr>status = 200,
          body =
            [(''role'', JStr ''Backend Developer''),
             (''matchPercentage'', JNum 33),
             (''recommendedSkills'',
                JArr [JObj [(''skill'', JStr ''Docker''), (''score'', JNum 7),
                            (''name'', JStr ''Docker''), (''demand'', JNum 7)],
                      JObj [(''skill'', JStr ''SQL''), (''score'', JNum 1),
                            (''name'', JStr ''SQL''), (''demand'', JNum 9)]])]\<rparr>
   \<and> example_score (Some docker_info) = Inr (JNum 7)
   \<and> example_score (Some sql_info) = Inr (JNum 9)"
proof -
  have "recommendCareer example_score example_coerce backend_roles [sql_info, docker_info]
       \<lparr>skills = Some [JStr ''Node'']\<rparr> =
     Inr \<lparr>status = 200,
          body =
            [(''role'', JStr ''Backend Developer''),
             (''matchPercentage'', JNum 33),
             (''recommendedSkills'',
                JArr [JObj [(''skill'', JStr ''Docker''), (''score'', JNum 7),
                            (''name'', JStr ''Docker''), (''demand'', JNum 7)],
                      JObj [(''skill'', JStr ''SQL''), (''score'', JNum 1),
                            (''name'', JStr ''SQL''), (''demand'', JNum 9)]])]\<rparr>"
    by code_simp
  then show ?thesis
    by (simp add: example_score_def docker_info_def sql_info_def prop_get_def)
qed

text \<open>
  C4, amended. \<open>recommendedSkills\<close> is the first three entries, or all of them when
  there are fewer, of a rearrangement of the entries of the missing skills; its length
  is never above 3. When the \<open>score\<close> field of every entry is a number (the scoring
  function's output, or the metadata's own \<open>score\<close> where it has one), that
  rearrangement is in descending order of the field, and entries with equal values
  keep the order in which \<open>requiredSkills\<close> lists their skills.
\<close>

theorem recommended_skills_ranked_by_score_field:
  assumes "skills req = Some userSkills" and "userSkills \<noteq> []"
    and "recommendCareer calculateScore coerce roles skillsData req = Inr resp"
  shows "\<exists>name targetRole missing ranked.
           prop_get (body resp) ''role'' = JStr name
           \<and> find (\<lambda>r. role r = name) roles = Some targetRole
           \<and> missingSkills calculateScore skillsData userSkills targetRole = Inr missing
           \<and> prop_get (body resp) ''recommendedSkills'' = JArr (map JObj (take 3 ranked))
           \<and> length (take 3 ranked) \<le> 3
           \<and> mset ranked = mset missing
           \<and> ((\<forall>e\<in>set missing. \<exists>x. prop_get e ''score'' = JNum x) \<longrightarrow>
                sorted_wrt (\<lambda>a b. \<exists>x y. prop_get a ''score'' = JNum x
                                      \<and> prop_get b ''score'' = JNum y \<and> y \<le> x) ranked
                \<and> (\<forall>v. filter (\<lambda>e. prop_get e ''score'' = v) ranked
                          = filter (\<lambda>e. prop_get e ''score'' = v) missing))"
proof -
  from assms obtain matched targetRole missing where
    tr: "find (\<lambda>r. role r = role matched) roles = Some targetRole"
    and ms: "missingSkills calculateScore skillsData userSkills targetRole = Inr missing"
    and resp: "resp = \<lparr>status = 200,
             body = [(''role'', JStr (role matched)),
                     (''matchPercentage'', matchPercentage matched),
                     (''recommendedSkills'',
                        JArr (map JObj (take 3 (array_sort (byScore coerce) missing))))]\<rparr>"
    by (rule recommendCareer_Inr_cases)
  let ?ranked = "array_sort (byScore coerce) missing"
  have "prop_get (body resp) ''role'' = JStr (role matched)"
    and "prop_get (body resp) ''recommendedSkills'' = JArr (map JObj (take 3 ?ranked))"
    by (simp_all add: resp prop_get_def)
  moreover have "length (take 3 ?ranked) \<le> 3" by simp
  moreover have "mset ?ranked = mset missing" by simp
  moreover have "(\<forall>e\<in>set missing. \<exists>x. prop_get e ''score'' = JNum x) \<longrightarrow>
                sorted_wrt (\<lambda>a b. \<exists>x y. prop_get a ''score'' = JNum x
                                      \<and> prop_get b ''score'' = JNum y \<and> y \<le> x) ?ranked
                \<and> (\<forall>v. filter (\<lambda>e. prop_get e ''score'' = v) ?ranked
                          = filter (\<lambda>e. prop_get e ''score'' = v) missing)"
    using ranked_by_score_field by blast
  ultimately show ?thesis using tr ms by blast
qed

theorem recommended_skills_ranked_by_score_field_witness:
  "(\<exists>name targetRole missing ranked.
      prop_get (body \<lparr>status = 200,
          body =
            [(''role'', JStr ''Backend Developer''),
             (''matchPercentage'', JNum 33),
             (''recommendedSkills'',
                JArr [JObj [(''skill'', JStr ''Docker''), (''score'', JNum 7),
                            (''name'', JStr ''Docker''), (''demand'', JNum 7)],
                      JObj [(''skill'', JStr ''SQL''), (''score'', JNum 1),
                            (''name'', JStr ''SQL''), (''demand'', JNum 9)]])]\<rparr>) ''role'' = JStr name
      \<and> find (\<lambda>r. role r = name) backend_roles = Some targetRole
      \<and> missingSkills example_score [sql_info, docker_info] [JStr ''Node''] targetRole = Inr missing
      \<and> prop_get (body \<lparr>status = 200,
          body =
            [(''role'', JStr ''Backend Developer''),
             (''matchPercentage'', JNum 33),
             (''recommendedSkills'',
                JArr [JObj [(''skill'', JStr ''Docker''), (''score'', JNum 7),
                            (''name'', JStr ''Docker''), (''demand'', JNum 7)],
                      JObj [(''skill'', JStr ''SQL''), (''score'', JNum 1),
                            (''name'', JStr ''SQL''), (''demand'', JNum 9)]])]\<rparr>) ''recommendedSkills''
          = JArr (map JObj (take 3 ranked))
      \<and> length (take 3 ranked) \<le> 3
      \<and> mset ranked = mset missing
      \<and> ((\<forall>e\<in>set missing. \<exists>x. prop_get e ''score'' = JNum x) \<longrightarrow>
           sorted_wrt (\<lambda>a b. \<exists>x y. prop_get a ''score'' = JNum x
                                 \<and> prop_get b ''score'' = JNum y \<and> y \<le> x) ranked
           \<and> (\<forall>v. filter (\<lambda>e. prop_get e ''score'' = v) ranked
                     = filter (\<lambda>e. prop_get e ''score'' = v) missing)))
   \<and> missingSkills example_score [sql_info, docker_info] [JStr ''Node'']
        \<lparr>role = ''Backend Developer'', requiredSkills = [''Node'', ''SQL'', ''Docker'']\<rparr> =
      Inr [[(''skill'', JStr ''SQL''), (''score'', JNum 1),
            (''name'', JStr ''SQL''), (''demand'', JNum 9)],
           [(''skill'', JStr ''Docker''), (''score'', JNum 7),
            (''name'', JStr ''Docker''), (''demand'', JNum 7)]]
   \<and> prop_get [(''skill'', JStr ''SQL''), (''score'', JNum 1),
                 (''name'', JStr ''SQL''), (''demand'', JNum 9)] ''score'' = JNum 1
   \<and> prop_get [(''skill'', JStr ''Docker''), (''score'', JNum 7),
                 (''name'', JStr ''Docker''), (''demand'', JNum 7)] ''score'' = JNum 7"
proof -
  let ?req = "\<lparr>skills = Some [JStr ''Node'']\<rparr>"
  have run: "recommendCareer example_score example_coerce backend_roles [sql_info, docker_info] ?req
               = Inr \<lparr>status = 200,
          body =
            [(''role'', JStr ''Backend Developer''),
             (''matchPercentage'', JNum 33),
             (''recommendedSkills'',
                JArr [JObj [(''skill'', JStr ''Docker''), (''score'', JNum 7),
                            (''name'', JStr ''Docker''), (''demand'', JNum 7)],
                      JObj [(''skill'', JStr ''SQL''), (''score'', JNum 1),
                            (''name'', JStr ''SQL''), (''demand'', JNum 9)]])]\<rparr>"
    by code_simp
  have sk: "skills ?req = Some [JStr ''Node'']" by simp
  have ne: "[JStr ''Node''] \<noteq> []" by simp
  note ranked = recommended_skills_ranked_by_score_field [OF sk ne run]
  have ms: "missingSkills example_score [sql_info, docker_info] [JStr ''Node'']
        \<lparr>role = ''Backend Developer'', requiredSkills = [''Node'', ''SQL'', ''Docker'']\<rparr> =
      Inr [[(''skill'', JStr ''SQL''), (''score'', JNum 1),
            (''name'', JStr ''SQL''), (''demand'', JNum 9)],
           [(''skill'', JStr ''Docker''), (''score'', JNum 7),
            (''name'', JStr ''Docker''), (''demand'', JNum 7)]]"
    by code_simp
  have s1: "prop_get [(''skill'', JStr ''SQL''), (''score'', JNum 1),
                 (''name'', JStr ''SQL''), (''demand'', JNum 9)] ''score'' = JNum 1"
    by (simp add: prop_get_def)
  have s2: "prop_get [(''skill'', JStr ''Docker''), (''score'', JNum 7),
                 (''name'', JStr ''Docker''), (''demand'', JNum 7)] ''score'' = JNum 7"
    by (simp add: prop_get_def)
  show ?thesis by (intro conjI ranked ms s1 s2)
qed

text \<open>
  C10. The entry of a missing skill is \<open>{ skill, score, ...skillInfo }\<close>. With
  distinct keys in every Skills-table entry, each entry of the missing skills, and so
  each entry of \<open>recommendedSkills\<close> in the response, carries in \<open>score\<close> the
  metadata's own \<open>score\<close> when the metadata found for the skill has one, the
  scoring function's output otherwise, and in \<open>skill\<close> the metadata's own
  \<open>skill\<close> when it has one, the skill name otherwise; and the response lists the
  first three of these entries in descending order of the value their \<open>score\<close>
  field carries, whenever those values are numbers.
\<close>

theorem metadata_overwrites_in_response:
  assumes "skills req = Some userSkills" and "userSkills \<noteq> []"
    and "recommendCareer calculateScore coerce roles skillsData req = Inr resp"
    and "\<forall>s\<in>set skillsData. distinct (map fst s)"
  shows "\<exists>name targetRole missing ranked.
           prop_get (body resp) ''role'' = JStr name
           \<and> find (\<lambda>r. role r = name) roles = Some targetRole
           \<and> prop_get (body resp) ''recommendedSkills'' = JArr (map JObj (take 3 ranked))
           \<and> mset ranked = mset missing
           \<and> list_all2
                (\<lambda>skill e. \<exists>score.
                   calculateScore (find (\<lambda>s. prop_get s ''name'' = JStr skill) skillsData) = Inr score
                   \<and> prop_get e ''score'' =
                       (case find (\<lambda>s. prop_get s ''name'' = JStr skill) skillsData of
                          None \<Rightarrow> score
                        | Some skillInfo \<Rightarrow>
                            (case map_of skillInfo ''score'' of None \<Rightarrow> score | Some v \<Rightarrow> v))
                   \<and> prop_get e ''skill'' =
                       (case find (\<lambda>s. prop_get s ''name'' = JStr skill) skillsData of
                          None \<Rightarrow> JStr skill
                        | Some skillInfo \<Rightarrow>
                            (case map_of skillInfo ''skill'' of None \<Rightarrow> JStr skill | Some v \<Rightarrow> v)))
                (filter (\<lambda>skill. JStr skill \<notin> set userSkills) (requiredSkills targetRole))
                missing
           \<and> ((\<forall>e\<in>set missing. \<exists>x. prop_get e ''score'' = JNum x) \<longrightarrow>
                sorted_wrt (\<lambda>a b. \<exists>x y. prop_get a ''score'' = JNum x
                                      \<and> prop_get b ''score'' = JNum y \<and> y \<le> x) ranked
                \<and> (\<forall>v. filter (\<lambda>e. prop_get e ''score'' = v) ranked
                          = filter (\<lambda>e. prop_get e ''score'' = v) missing))"
proof -
  from assms(1-3) obtain matched targetRole missing where
    tr: "find (\<lambda>r. role r = role matched) roles = Some targetRole"
    and ms: "missingSkills calculateScore skillsData userSkills targetRole = Inr missing"
    and resp: "resp = \<lparr>status = 200,
             body = [(''role'', JStr (role matched)),
                     (''matchPercentage'', matchPercentage matched),
                     (''recommendedSkills'',
                        JArr (map JObj (take 3 (array_sort (byScore coerce) missing))))]\<rparr>"
    by (rule recommendCareer_Inr_cases)
  let ?names = "filter (\<lambda>skill. JStr skill \<notin> set userSkills) (requiredSkills targetRole)"
  let ?ranked = "array_sort (byScore coerce) missing"
  from ms have "list_all2 (\<lambda>x y. missingEntry calculateScore skillsData x = Inr y) ?names missing"
    by (simp add: missingSkills_def array_includes_def array_map_list_all2)
  then have fields: "list_all2
                (\<lambda>skill e. \<exists>score.
                   calculateScore (find (\<lambda>s. prop_get s ''name'' = JStr skill) skillsData) = Inr score
                   \<and> prop_get e ''score'' =
                       (case find (\<lambda>s. prop_get s ''name'' = JStr skill) skillsData of
                          None \<Rightarrow> score
                        | Some skillInfo \<Rightarrow>
                            (case map_of skillInfo ''score'' of None \<Rightarrow> score | Some v \<Rightarrow> v))
                   \<and> prop_get e ''skill'' =
                       (case find (\<lambda>s. prop_get s ''name'' = JStr skill) skillsData of
                          None \<Rightarrow> JStr skill
                        | Some skillInfo \<Rightarrow>
                            (case map_of skillInfo ''skill'' of None \<Rightarrow> JStr skill | Some v \<Rightarrow> v)))
                ?names missing"
    by (rule list_all2_mono) (rule missingEntry_fields [OF _ assms(4)])
  have "prop_get (body resp) ''role'' = JStr (role matched)"
    and "prop_get (body resp) ''recommendedSkills'' = JArr (map JObj (take 3 ?ranked))"
    by (simp_all add: resp prop_get_def)
  moreover have "mset ?ranked = mset missing" by simp
  moreover have "(\<forall>e\<in>set missing. \<exists>x. prop_get e ''score'' = JNum x) \<longrightarrow>
                sorted_wrt (\<lambda>a b. \<exists>x y. prop_get a ''score'' = JNum x
                                      \<and> prop_get b ''score'' = JNum y \<and> y \<le> x) ?ranked
                \<and> (\<forall>v. filter (\<lambda>e. prop_get e ''score'' = v) ?ranked
                          = filter (\<lambda>e. prop_get e ''score'' = v) missing)"
    using ranked_by_score_field by blast
  ultimately show ?thesis using tr fields by blast
qed

theorem metadata_overwrites_in_response_witness:
  "(\<exists>name targetRole missing ranked.
      prop_get (body \<lparr>status = 200,
          body =
            [(''role'', JStr ''Backend Developer''),
             (''matchPercentage'', JNum 33),
             (''recommendedSkills'',
                JArr [JObj [(''skill'', JStr ''Docker''), (''score'', JNum 7),
                            (''name'', JStr ''Docker''), (''demand'', JNum 7)],
                      JObj [(''skill'', JStr ''SQL''), (''score'', JNum 1),
                            (''name'', JStr ''SQL''), (''demand'', JNum 9)]])]\<rparr>) ''role'' = JStr name
      \<and> find (\<lambda>r. role r = name) backend_roles = Some targetRole
      \<and> prop_get (body \<lparr>status = 200,
          body =
            [(''role'', JStr ''Backend Developer''),
             (''matchPercentage'', JNum 33),
             (''recommendedSkills'',
                JArr [JObj [(''skill'', JStr ''Docker''), (''score'', JNum 7),
                            (''name'', JStr ''Docker''), (''demand'', JNum 7)],
                      JObj [(''skill'', JStr ''SQL''), (''score'', JNum 1),
                            (''name'', JStr ''SQL''), (''demand'', JNum 9)]])]\<rparr>) ''recommendedSkills''
          = JArr (map JObj (take 3 ranked))
      \<and> mset ranked = mset missing
      \<and> list_all2
           (\<lambda>skill e. \<exists>score.
              example_score (find (\<lambda>s. prop_get s ''name'' = JStr skill) [sql_info, docker_info])
                = Inr score
              \<and> prop_get e ''score'' =
                  (case find (\<lambda>s. prop_get s ''name'' = JStr skill) [sql_info, docker_info] of
                     None \<Rightarrow> score
                   | Some skillInfo \<Rightarrow>
                       (case map_of skillInfo ''score'' of None \<Rightarrow> score | Some v \<Rightarrow> v))
              \<and> prop_get e ''skill'' =
                  (case find (\<lambda>s. prop_get s ''name'' = JStr skill) [sql_info, docker_info] of
                     None \<Rightarrow> JStr skill
                   | Some skillInfo \<Rightarrow>
                       (case map_of skillInfo ''skill'' of None \<Rightarrow> JStr skill | Some v \<Rightarrow> v)))
           (filter (\<lambda>skill. JStr skill \<notin> set [JStr ''Node'']) (requiredSkills targetRole))
           missing
      \<and> ((\<forall>e\<in>set missing. \<exists>x. prop_get e ''score'' = JNum x) \<longrightarrow>
           sorted_wrt (\<lambda>a b. \<exists>x y. prop_get a ''score'' = JNum x
                                 \<and> prop_get b ''score'' = JNum y \<and> y \<le> x) ranked
           \<and> (\<forall>v. filter (\<lambda>e. prop_get e ''score'' = v) ranked
                     = filter (\<lambda>e. prop_get e ''score'' = v) missing)))
   \<and> distinct (map fst sql_info) \<and> distinct (map fst docker_info)
   \<and> find (\<lambda>s. prop_get s ''name'' = JStr ''SQL'') [sql_info, docker_info] = Some sql_info
   \<and> map_of sql_info ''score'' = Some (JNum 1)
   \<and> example_score (Some sql_info) = Inr (JNum 9)
   \<and> find (\<lambda>s. prop_get s ''name'' = JStr ''Docker'') [sql_info, docker_info] = Some docker_info
   \<and> map_of docker_info ''score'' = None
   \<and> example_score (Some docker_info) = Inr (JNum 7)"
proof -
  let ?req = "\<lparr>skills = Some [JStr ''Node'']\<rparr>"
  have run: "recommendCareer example_score example_coerce backend_roles [sql_info, docker_info] ?req
               = Inr \<lparr>status = 200,
          body =
            [(''role'', JStr ''Backend Developer''),
             (''matchPercentage'', JNum 33),
             (''recommendedSkills'',
                JArr [JObj [(''skill'', JStr ''Docker''), (''score'', JNum 7),
                            (''name'', JStr ''Docker''), (''demand'', JNum 7)],
                      JObj [(''skill'', JStr ''SQL''), (''score'', JNum 1),
                            (''name'', JStr ''SQL''), (''demand'', JNum 9)]])]\<rparr>"
    by code_simp
  have sk: "skills ?req = Some [JStr ''Node'']" by simp
  have ne: "[JStr ''Node''] \<noteq> []" by simp
  have d1: "distinct (map fst sql_info)" by (simp add: sql_info_def)
  have d2: "distinct (map fst docker_info)" by (simp add: docker_info_def)
  from d1 d2 have keys: "\<forall>s\<in>set [sql_info, docker_info]. distinct (map fst s)" by simp
  note overwritten = metadata_overwrites_in_response [OF sk ne run keys]
  have f1: "find (\<lambda>s. prop_get s ''name'' = JStr ''SQL'') [sql_info, docker_info] = Some sql_info"
    by (simp add: sql_info_def prop_get_def)
  have m1: "map_of sql_info ''score'' = Some (JNum 1)" by (simp add: sql_info_def)
  have c1: "example_score (Some sql_info) = Inr (JNum 9)"
    by (simp add: example_score_def sql_info_def prop_get_def)
  have f2: "find (\<lambda>s. prop_get s ''name'' = JStr ''Docker'') [sql_info, docker_info] = Some docker_info"
    by (simp add: sql_info_def docker_info_def prop_get_def)
  have m2: "map_of docker_info ''score'' = None" by (simp add: docker_info_def)
  have c2: "example_score (Some docker_info) = Inr (JNum 7)"
    by (simp add: example_score_def docker_info_def prop_get_def)
  show ?thesis by (intro conjI overwritten d1 d2 f1 m1 c1 f2 m2 c2)
qed

section \<open>The match percentage\<close>

text \<open>The exponent search is right when its fuel covers the distance of the argument
  from \<open>[1, 2)\<close>, and rounding to a double moves a positive number of the normal
  range by at most \<open>2^-53\<close> of itself.\<close>

lemma two_powi_pos [simp]: "0 < (2::rat) powi e"
  by (simp add: zero_less_power_int)

lemma two_powi_Suc: "(2::rat) powi (e + 1) = 2 * 2 powi e"
  by (simp add: power_int_add)

lemma two_powi_pred: "(2::rat) powi (e - 1) = 2 powi e / 2"
  by (simp add: power_int_diff)

lemma binade_bounds:
  assumes "2 powi (- int n) \<le> x" and "x < 2 powi (int n + 1)"
  shows "2 powi (binade n x) \<le> x \<and> x < 2 powi (binade n x + 1)"
  using assms
proof (induction n arbitrary: x)
  case 0
  then show ?case by simp
next
  case (Suc n)
  have up: "(2::rat) powi (int (Suc n) + 1) = 2 * 2 powi (int n + 1)"
    by (simp add: power_int_add)
  have "- int (Suc n) = - int n - 1" by simp
  then have down: "(2::rat) powi (- int (Suc n)) = 2 powi (- int n) / 2"
    by (simp only: two_powi_pred)
  have two_le: "(2::rat) \<le> 2 powi (int n + 1)"
    using one_le_power_int [of "2::rat" "int n"] by (simp add: two_powi_Suc)
  have le_one: "(2::rat) powi (- int n) \<le> 1"
    by (simp add: power_int_minus inverse_le_1_iff one_le_power)
  consider "x < 1" | "2 \<le> x" | "1 \<le> x" "x < 2" by linarith
  then show ?case
  proof cases
    case 1
    have "2 powi (- int n) \<le> 2 * x" using Suc.prems(1) down by simp
    moreover have "2 * x < 2 powi (int n + 1)" using 1 two_le by linarith
    ultimately have "2 powi (binade n (2 * x)) \<le> 2 * x \<and> 2 * x < 2 powi (binade n (2 * x) + 1)"
      by (rule Suc.IH)
    moreover have "binade (Suc n) x = binade n (2 * x) - 1" using 1 by simp
    ultimately show ?thesis
      using two_powi_pred [of "binade n (2 * x)"] two_powi_Suc [of "binade n (2 * x)"]
      by simp
  next
    case 2
    have "2 powi (- int n) \<le> x / 2" using 2 le_one by linarith
    moreover have "x / 2 < 2 powi (int n + 1)" using Suc.prems(2) up by simp
    ultimately have "2 powi (binade n (x / 2)) \<le> x / 2 \<and> x / 2 < 2 powi (binade n (x / 2) + 1)"
      by (rule Suc.IH)
    moreover have "binade (Suc n) x = binade n (x / 2) + 1" using 2 by simp
    moreover have "(2::rat) powi (binade n (x / 2) + 1 + 1) = 2 * 2 powi (binade n (x / 2) + 1)"
      by (rule two_powi_Suc)
    moreover have "(2::rat) powi (binade n (x / 2) + 1) = 2 * 2 powi (binade n (x / 2))"
      by (rule two_powi_Suc)
    ultimately show ?thesis by (simp only:) linarith
  next
    case 3
    then show ?thesis by simp
  qed
qed

lemma roundTiesToEven_error: "\<bar>of_int (roundTiesToEven y) - y\<bar> \<le> 1 / 2"
proof -
  have "of_int \<lfloor>y\<rfloor> \<le> y" "y < of_int \<lfloor>y\<rfloor> + 1" by linarith+
  then show ?thesis
    by (auto simp: roundTiesToEven_def Let_def)
qed

lemma fl_error:
  assumes lo: "2 powi (- 1022) \<le> x" and hi: "x < 2 powi 1101"
  shows "\<bar>fl x - x\<bar> \<le> x / 2 ^ 53"
proof -
  have pos: "0 < x" using lo two_powi_pos [of "- 1022"] by linarith
  define e where "e = binade 1100 x"
  have "(2::rat) powi (- int 1100) \<le> 2 powi (- 1022)"
    by (rule power_int_increasing) simp_all
  then have "2 powi (- int 1100) \<le> x" using lo by linarith
  moreover have "x < 2 powi (int 1100 + 1)" using hi by simp
  ultimately have b: "2 powi e \<le> x" "x < 2 powi (e + 1)"
    using binade_bounds [of 1100 x] pos by (simp_all add: e_def)
  have "(2::rat) powi (- 1022) < 2 powi (e + 1)" using lo b(2) by linarith
  have "- 1022 < e + 1"
  proof (rule ccontr)
    assume "\<not> - 1022 < e + 1"
    then have "e + 1 \<le> - 1022" by simp
    then have "(2::rat) powi (e + 1) \<le> 2 powi (- 1022)"
      by (rule power_int_increasing) simp
    with \<open>2 powi (- 1022) < 2 powi (e + 1)\<close> show False by simp
  qed
  then have emax: "max e (- 1022) = e" by simp
  define q :: rat where "q = 2 powi (e - 52)"
  have qpos: "0 < q" by (simp add: q_def)
  have fl: "fl x = of_int (roundTiesToEven (x / q)) * q"
    using pos emax by (simp add: fl_def Let_def abs_of_pos e_def [symmetric] q_def)
  have "fl x - x = (of_int (roundTiesToEven (x / q)) - x / q) * q"
    using qpos by (simp add: fl left_diff_distrib)
  then have "\<bar>fl x - x\<bar> = \<bar>of_int (roundTiesToEven (x / q)) - x / q\<bar> * q"
    using qpos by (simp add: abs_mult abs_of_pos)
  also have "\<dots> \<le> 1 / 2 * q"
    using roundTiesToEven_error [of "x / q"] qpos by (intro mult_right_mono) simp_all
  also have "1 / 2 * q = 2 powi e / 2 ^ 53"
    by (simp add: q_def power_int_diff)
  also have "\<dots> \<le> x / 2 ^ 53"
    using b(1) by (simp add: divide_right_mono)
  finally show ?thesis .
qed

lemma tiny_le: "(2::rat) powi (- 1022) \<le> 1 / 2 ^ 32"
proof -
  have "(2::rat) powi (- 1022) \<le> 2 powi (- 32)"
    by (rule power_int_increasing) simp_all
  also have "(2::rat) powi (- 32) = 1 / 2 ^ 32"
    by (simp add: power_int_minus_divide)
  finally show ?thesis .
qed

lemma huge_gt: "(200::rat) < 2 powi 1101"
proof -
  have "(200::rat) < 2 powi 8" by simp
  also have "(2::rat) powi 8 \<le> 2 powi 1101"
    by (rule power_int_increasing) simp_all
  finally show ?thesis .
qed

lemma percent_error:
  fixes m t :: nat
  assumes m: "1 \<le> m" and mt: "m \<le> t" and t: "t < 2 ^ 32"
  shows "\<bar>fl (fl (of_nat m / of_nat t) * 100) - 100 * of_nat m / of_nat t\<bar> \<le> 300 / 2 ^ 53"
proof -
  define x :: rat where "x = of_nat m / of_nat t"
  have tpos: "(0::rat) < of_nat t" using m mt by simp
  have x_le: "x \<le> 1" using mt tpos by (simp add: x_def)
  have "(of_nat t :: rat) \<le> 2 ^ 32"
  proof -
    have "(of_nat t :: rat) \<le> of_nat (2 ^ 32)" using t by (intro of_nat_mono) simp
    then show ?thesis by simp
  qed
  then have "1 / 2 ^ 32 \<le> 1 / (of_nat t :: rat)"
    using tpos by (intro divide_left_mono) simp_all
  also have "\<dots> \<le> x"
    unfolding x_def using m tpos by (intro divide_right_mono) simp_all
  finally have x_ge: "1 / 2 ^ 32 \<le> x" .
  have lo1: "2 powi (- 1022) \<le> x" using tiny_le x_ge by linarith
  have hi1: "x < 2 powi 1101" using x_le huge_gt by linarith
  define a where "a = fl x"
  have e1: "\<bar>a - x\<bar> \<le> x / 2 ^ 53"
    unfolding a_def using lo1 hi1 by (rule fl_error)
  have xpos: "0 < x" using x_ge by (simp add: less_le_trans [OF _ x_ge])
  have "x / 2 ^ 53 \<le> x / 2" using xpos by (intro divide_left_mono) simp_all
  with e1 have "\<bar>a - x\<bar> \<le> x / 2" by linarith
  with xpos have a_ge: "x / 2 \<le> a" and a_le: "a \<le> 2 * x"
    by linarith+
  define b where "b = a * 100"
  have lo2: "2 powi (- 1022) \<le> b" using tiny_le x_ge a_ge by (simp add: b_def)
  have hi2: "b < 2 powi 1101" using huge_gt a_le x_le by (simp add: b_def)
  have e2: "\<bar>fl b - b\<bar> \<le> b / 2 ^ 53"
    using lo2 hi2 by (rule fl_error)
  have "b \<le> 200" using a_le x_le by (simp add: b_def)
  then have e2': "\<bar>fl b - b\<bar> \<le> 200 / 2 ^ 53" using e2 by simp
  have "b - 100 * x = 100 * (a - x)" by (simp add: b_def algebra_simps)
  then have "\<bar>b - 100 * x\<bar> = 100 * \<bar>a - x\<bar>" by (simp only: abs_mult)
  also have "\<dots> \<le> 100 * (x / 2 ^ 53)" using e1 by simp
  also have "\<dots> \<le> 100 / 2 ^ 53" using x_le by simp
  finally have e3: "\<bar>b - 100 * x\<bar> \<le> 100 / 2 ^ 53" .
  have "\<bar>fl b - 100 * x\<bar> \<le> 300 / 2 ^ 53" using e2' e3 by linarith
  then show ?thesis by (simp add: b_def a_def x_def)
qed

lemma fl_zero [simp]: "fl 0 = 0"
  by (simp add: fl_def)

lemma percent_nearest:
  fixes m t :: nat
  assumes mt: "m \<le> t" and t0: "t \<noteq> 0" and t: "t < 2 ^ 32"
  defines "p \<equiv> Math_round (fl (fl (of_nat m / of_nat t) * 100))"
  shows "(2 * p - 1) * int t \<le> 200 * int m \<and> 200 * int m \<le> (2 * p + 1) * int t"
proof (cases "m = 0")
  case True
  have "\<lfloor>1 / 2 :: rat\<rfloor> = 0" by (rule floor_unique) simp_all
  with True have "p = 0" by (simp add: p_def Math_round_def)
  with True show ?thesis by simp
next
  case False
  then have m1: "1 \<le> m" by simp
  define y where "y = fl (fl (of_nat m / of_nat t) * 100)"
  define E :: rat where "E = 100 * of_nat m / of_nat t"
  have err: "\<bar>y - E\<bar> \<le> 300 / 2 ^ 53"
    unfolding y_def E_def using m1 mt t by (rule percent_error)
  have p: "of_int p \<le> y + 1 / 2" "y + 1 / 2 < of_int p + 1"
    unfolding p_def Math_round_def y_def by linarith+
  have tpos: "(0::rat) < of_nat t" using t0 by simp
  have tE: "of_nat t * E = 200 * of_nat m / 2" using tpos by (simp add: E_def)
  have "(of_nat t :: rat) \<le> of_nat (2 ^ 32)" using t by (intro of_nat_mono) simp
  then have tle: "(of_nat t :: rat) \<le> 2 ^ 32" by simp
  have lo: "of_int p - 1 / 2 - 300 / 2 ^ 53 \<le> E" using err p by linarith
  have hi: "E < of_int p + 1 / 2 + 300 / 2 ^ 53" using err p by linarith
  have "of_nat t * (of_int p - 1 / 2 - 300 / 2 ^ 53) \<le> of_nat t * E"
    using lo tpos by (intro mult_left_mono) simp_all
  then have "of_nat t * (2 * of_int p - 1) - of_nat t * (600 / 2 ^ 53) \<le> (200 * of_nat m :: rat)"
    using tE by (simp add: algebra_simps)
  moreover have "of_nat t * (600 / 2 ^ 53) < (1::rat)" using tle by simp
  ultimately have "of_nat t * (2 * of_int p - 1) - 1 < (200 * of_nat m :: rat)" by linarith
  then have "rat_of_int (int t * (2 * p - 1) - 1) < rat_of_int (200 * int m)" by simp
  then have l: "int t * (2 * p - 1) - 1 < 200 * int m" by (simp only: of_int_less_iff)
  have "of_nat t * E < of_nat t * (of_int p + 1 / 2 + 300 / 2 ^ 53)"
    using hi tpos by (intro mult_strict_left_mono) simp_all
  then have "(200 * of_nat m :: rat) < of_nat t * (2 * of_int p + 1) + of_nat t * (600 / 2 ^ 53)"
    using tE by (simp add: algebra_simps)
  with \<open>of_nat t * (600 / 2 ^ 53) < (1::rat)\<close>
  have "(200 * of_nat m :: rat) < of_nat t * (2 * of_int p + 1) + 1" by linarith
  then have "rat_of_int (200 * int m) < rat_of_int (int t * (2 * p + 1) + 1)" by simp
  then have u: "200 * int m < int t * (2 * p + 1) + 1" by (simp only: of_int_less_iff)
  from l u show ?thesis by (simp add: algebra_simps)
qed

lemma percent_range:
  fixes m t :: nat and p :: int
  assumes "m \<le> t" and "t \<noteq> 0"
    and "(2 * p - 1) * int t \<le> 200 * int m" and "200 * int m \<le> (2 * p + 1) * int t"
  shows "0 \<le> p \<and> p \<le> 100"
proof -
  have tpos: "0 < int t" using assms(2) by simp
  have "(2 * p - 1) * int t \<le> 200 * int t" using assms(1,3) by linarith
  then have "2 * p - 1 \<le> 200" using tpos by (simp add: mult_le_cancel_right)
  moreover have "0 \<le> (2 * p + 1) * int t" using assms(4) by linarith
  then have "0 \<le> 2 * p + 1" using tpos by (simp add: zero_le_mult_iff)
  ultimately show ?thesis by linarith
qed

lemma percent_round:
  fixes m t :: nat and p :: int
  assumes "t \<noteq> 0"
    and "(2 * p - 1) * int t \<le> 200 * int m" and "200 * int m \<le> (2 * p + 1) * int t"
  shows "p = round_half_away_from_zero (of_nat m / of_nat t * 100)
         \<or> of_int p + 1 / 2 = (of_nat m / of_nat t * 100 :: rat)"
proof -
  define E :: rat where "E = of_nat m / of_nat t * 100"
  have tpos: "(0::rat) < of_nat t" using assms(1) by simp
  have E0: "0 \<le> E" by (simp add: E_def)
  have "rat_of_int ((2 * p - 1) * int t) \<le> rat_of_int (200 * int m)"
    using assms(2) by (simp only: of_int_le_iff)
  then have "(2 * of_int p - 1) * of_nat t \<le> (200 * of_nat m :: rat)" by simp
  then have "(2 * of_int p - 1) \<le> (200 * of_nat m :: rat) / of_nat t"
    using tpos by (simp add: pos_le_divide_eq)
  then have lo: "of_int p - 1 / 2 \<le> E" by (simp add: E_def)
  have "rat_of_int (200 * int m) \<le> rat_of_int ((2 * p + 1) * int t)"
    using assms(3) by (simp only: of_int_le_iff)
  then have "(200 * of_nat m :: rat) \<le> (2 * of_int p + 1) * of_nat t" by simp
  then have "(200 * of_nat m :: rat) / of_nat t \<le> 2 * of_int p + 1"
    using tpos by (simp add: pos_divide_le_eq)
  then have hi: "E \<le> of_int p + 1 / 2" by (simp add: E_def)
  show ?thesis
  proof (cases "E = of_int p + 1 / 2")
    case True
    then show ?thesis by (simp add: E_def)
  next
    case False
    with hi have "E < of_int p + 1 / 2" by simp
    with lo have "\<lfloor>E + 1 / 2\<rfloor> = p" by (intro floor_unique) simp_all
    then show ?thesis using E0 by (simp add: round_half_away_from_zero_def E_def)
  qed
qed

lemma matchPercentage_rounded:
  assumes "totalRequired r \<noteq> 0"
  shows "matchPercentage r =
           JNum (of_int \<lfloor>fl (fl (of_nat (matchCount r) / of_nat (totalRequired r)) * 100) + 1 / 2\<rfloor>)"
  using assms by (simp add: matchPercentage_def Math_round_def)

lemma rounded_product_nearest:
  fixes m t :: nat
  assumes "t \<noteq> 0" and "m \<le> t" and "t < 2 ^ 32"
  defines "p \<equiv> \<lfloor>fl (fl (of_nat m / of_nat t) * 100) + 1 / 2\<rfloor>"
  shows "0 \<le> p \<and> p \<le> 100
         \<and> (p = round_half_away_from_zero (of_nat m / of_nat t * 100)
            \<or> (of_int p + 1 / 2 = (of_nat m / of_nat t * 100 :: rat)
                \<and> fl (fl (of_nat m / of_nat t) * 100) < of_nat m / of_nat t * 100))"
proof -
  have p: "p = Math_round (fl (fl (of_nat m / of_nat t) * 100))"
    by (simp add: p_def Math_round_def)
  have b: "(2 * p - 1) * int t \<le> 200 * int m \<and> 200 * int m \<le> (2 * p + 1) * int t"
    unfolding p using assms(2,1,3) by (rule percent_nearest)
  have range: "0 \<le> p \<and> p \<le> 100"
    using assms(2,1) b [THEN conjunct1] b [THEN conjunct2] by (rule percent_range)
  have near: "p = round_half_away_from_zero (of_nat m / of_nat t * 100)
                \<or> of_int p + 1 / 2 = (of_nat m / of_nat t * 100 :: rat)"
    using assms(1) b [THEN conjunct1] b [THEN conjunct2] by (rule percent_round)
  have below: "fl (fl (of_nat m / of_nat t) * 100) < of_int p + 1 / 2"
    unfolding p_def by linarith
  from range near below show ?thesis by auto
qed

text \<open>
  C2, as stated, fails: for 23 of 40 required skills the exact percentage is 57.5,
  which rounds half away from zero to 58, but the double nearest to \<open>23 / 40\<close>
  times 100 is the double just below 57.5, and \<open>Math.round\<close> gives 57.
\<close>

theorem match_percentage_rounding_counterexample:
  "recommendCareer example_score example_coerce wide_roles [] wide_request =
     Inr \<lparr>status = 200,
          body =
            [(''role'', JStr ''Generalist''),
             (''matchPercentage'', JNum 57),
             (''recommendedSkills'',
                JArr [JObj [(''skill'', JStr ''s24''), (''score'', JNum 0)],
                      JObj [(''skill'', JStr ''s25''), (''score'', JNum 0)],
                      JObj [(''skill'', JStr ''s26''), (''score'', JNum 0)]])]\<rparr>
   \<and> scoreRole (map JStr (take 23 forty_skills))
         \<lparr>role = ''Generalist'', requiredSkills = forty_skills\<rparr> =
       \<lparr>role = ''Generalist'', matchCount = 23, totalRequired = 40\<rparr>
   \<and> round_half_away_from_zero (23 / 40 * 100) = 58"
proof -
  have "recommendCareer example_score example_coerce wide_roles [] wide_request =
     Inr \<lparr>status = 200,
          body =
            [(''role'', JStr ''Generalist''),
             (''matchPercentage'', JNum 57),
             (''recommendedSkills'',
                JArr [JObj [(''skill'', JStr ''s24''), (''score'', JNum 0)],
                      JObj [(''skill'', JStr ''s25''), (''score'', JNum 0)],
                      JObj [(''skill'', JStr ''s26''), (''score'', JNum 0)]])]\<rparr>"
    by code_simp
  moreover have "scoreRole (map JStr (take 23 forty_skills))
         \<lparr>role = ''Generalist'', requiredSkills = forty_skills\<rparr> =
       \<lparr>role = ''Generalist'', matchCount = 23, totalRequired = 40\<rparr>"
    by code_simp
  moreover have "round_half_away_from_zero (23 / 40 * 100) = 58"
    by code_simp
  ultimately show ?thesis by (intro conjI)
qed

text \<open>
  C2, amended. When the matched role (the first of maximal match count) has a
  non-empty \<open>requiredSkills\<close>, \<open>matchPercentage\<close> is \<open>Math.round\<close> of the
  product computed in doubles: the integer \<open>\<lfloor>fl (fl (matchCount / totalRequired) * 100) + 1/2\<rfloor>\<close>.
  With fewer than \<open>2^32\<close> required skills, as any array has, it lies in the range
  0 to 100, and it is \<open>matchCount / totalRequired * 100\<close> rounded half away from
  zero, except where that exact value lies half-way between two integers and the
  product in doubles falls below it: there it is one less.
\<close>

theorem match_percentage_nearest_integer:
  assumes "skills req = Some userSkills" and "userSkills \<noteq> []"
    and "recommendCareer calculateScore coerce roles skillsData req = Inr resp"
  shows "\<exists>i<length roles.
           prop_get (body resp) ''role'' = JStr (role (roles ! i))
           \<and> (\<forall>j<length roles.
                  length (filter (\<lambda>s. JStr s \<in> set userSkills) (requiredSkills (roles ! j)))
                  \<le> length (filter (\<lambda>s. JStr s \<in> set userSkills) (requiredSkills (roles ! i))))
           \<and> (\<forall>j<i.
                  length (filter (\<lambda>s. JStr s \<in> set userSkills) (requiredSkills (roles ! j)))
                  < length (filter (\<lambda>s. JStr s \<in> set userSkills) (requiredSkills (roles ! i))))
           \<and> (requiredSkills (roles ! i) \<noteq> [] \<longrightarrow>
                (\<exists>p. prop_get (body resp) ''matchPercentage'' = JNum (of_int p)
                   \<and> p = \<lfloor>fl (fl (of_nat (length (filter (\<lambda>s. JStr s \<in> set userSkills)
                                                      (requiredSkills (roles ! i))))
                                    / of_nat (length (requiredSkills (roles ! i)))) * 100)
                            + 1 / 2\<rfloor>
                   \<and> (length (requiredSkills (roles ! i)) < 2 ^ 32 \<longrightarrow>
                        0 \<le> p \<and> p \<le> 100
                        \<and> (p = round_half_away_from_zero
                                 (of_nat (length (filter (\<lambda>s. JStr s \<in> set userSkills)
                                                    (requiredSkills (roles ! i))))
                                    / of_nat (length (requiredSkills (roles ! i))) * 100)
                            \<or> (of_int p + 1 / 2 =
                                  (of_nat (length (filter (\<lambda>s. JStr s \<in> set userSkills)
                                                     (requiredSkills (roles ! i))))
                                     / of_nat (length (requiredSkills (roles ! i))) * 100 :: rat)
                                \<and> fl (fl (of_nat (length (filter (\<lambda>s. JStr s \<in> set userSkills)
                                                             (requiredSkills (roles ! i))))
                                           / of_nat (length (requiredSkills (roles ! i)))) * 100)
                                    < of_nat (length (filter (\<lambda>s. JStr s \<in> set userSkills)
                                                        (requiredSkills (roles ! i))))
                                        / of_nat (length (requiredSkills (roles ! i))) * 100)))))"
proof -
  from assms obtain matched targetRole missing where
    m: "matchedRole roles userSkills = Some matched"
    and resp: "resp = \<lparr>status = 200,
             body = [(''role'', JStr (role matched)),
                     (''matchPercentage'', matchPercentage matched),
                     (''recommendedSkills'',
                        JArr (map JObj (take 3 (array_sort (byScore coerce) missing))))]\<rparr>"
    by (rule recommendCareer_Inr_cases)
  have ne: "roles \<noteq> []"
    using m by (auto simp: matchedRole_def)
  from matchedRole_first_max [OF ne, of userSkills]
  obtain i where i: "i < length roles"
    and mi: "matchedRole roles userSkills = Some (scoreRole userSkills (roles ! i))"
    and mx: "\<forall>j<length roles. matchCount (scoreRole userSkills (roles ! j))
                                  \<le> matchCount (scoreRole userSkills (roles ! i))"
    and fst: "\<forall>j<i. matchCount (scoreRole userSkills (roles ! j))
                        < matchCount (scoreRole userSkills (roles ! i))"
    by blast
  from m mi have matched: "matched = scoreRole userSkills (roles ! i)" by simp
  let ?mc = "length (filter (\<lambda>s. JStr s \<in> set userSkills) (requiredSkills (roles ! i)))"
  let ?tr = "length (requiredSkills (roles ! i))"
  let ?p = "\<lfloor>fl (fl (of_nat ?mc / of_nat ?tr) * 100) + 1 / 2\<rfloor>"
  have mc: "matchCount matched = ?mc" by (simp add: matched matchCount_scoreRole)
  have tr: "totalRequired matched = ?tr" by (simp add: matched scoreRole_def Let_def)
  have name: "prop_get (body resp) ''role'' = JStr (role (roles ! i))"
    by (simp add: resp prop_get_def matched)
  have pct: "prop_get (body resp) ''matchPercentage'' = matchPercentage matched"
    by (simp add: resp prop_get_def)
  have "\<exists>p. prop_get (body resp) ''matchPercentage'' = JNum (of_int p)
          \<and> p = ?p
          \<and> (?tr < 2 ^ 32 \<longrightarrow>
               0 \<le> p \<and> p \<le> 100
               \<and> (p = round_half_away_from_zero (of_nat ?mc / of_nat ?tr * 100)
                   \<or> (of_int p + 1 / 2 = (of_nat ?mc / of_nat ?tr * 100 :: rat)
                       \<and> fl (fl (of_nat ?mc / of_nat ?tr) * 100) < of_nat ?mc / of_nat ?tr * 100)))"
    if "requiredSkills (roles ! i) \<noteq> []"
  proof -
    from that have t0: "?tr \<noteq> 0" by simp
    then have "totalRequired matched \<noteq> 0" by (simp add: tr)
    from matchPercentage_rounded [OF this]
    have eq: "prop_get (body resp) ''matchPercentage'' = JNum (of_int ?p)"
      unfolding pct mc tr .
    have le: "?mc \<le> ?tr" by simp
    have "?tr < 2 ^ 32 \<longrightarrow>
               0 \<le> ?p \<and> ?p \<le> 100
               \<and> (?p = round_half_away_from_zero (of_nat ?mc / of_nat ?tr * 100)
                   \<or> (of_int ?p + 1 / 2 = (of_nat ?mc / of_nat ?tr * 100 :: rat)
                       \<and> fl (fl (of_nat ?mc / of_nat ?tr) * 100) < of_nat ?mc / of_nat ?tr * 100))"
      using rounded_product_nearest [OF t0 le] by blast
    with eq show ?thesis by blast
  qed
  then show ?thesis
    using i name mx fst unfolding matchCount_scoreRole by blast
qed

theorem match_percentage_nearest_integer_witness:
  "(\<exists>i<length example_roles.
      prop_get (body \<lparr>status = 200,
          body =
            [(''role'', JStr ''Backend Developer''),
             (''matchPercentage'', JNum 50),
             (''recommendedSkills'',
                JArr [JObj [(''skill'', JStr ''SQL''), (''score'', JNum 9),
                            (''name'', JStr ''SQL''), (''demand'', JNum 9)]])]\<rparr>) ''role''
        = JStr (role (example_roles ! i))
      \<and> (\<forall>j<length example_roles.
             length (filter (\<lambda>s. JStr s \<in> set [JStr ''Node''])
                       (requiredSkills (example_roles ! j)))
             \<le> length (filter (\<lambda>s. JStr s \<in> set [JStr ''Node''])
                         (requiredSkills (example_roles ! i))))
      \<and> (\<forall>j<i.
             length (filter (\<lambda>s. JStr s \<in> set [JStr ''Node''])
                       (requiredSkills (example_roles ! j)))
             < length (filter (\<lambda>s. JStr s \<in> set [JStr ''Node''])
                         (requiredSkills (example_roles ! i))))
      \<and> (requiredSkills (example_roles ! i) \<noteq> [] \<longrightarrow>
           (\<exists>p. prop_get (body \<lparr>status = 200,
                    body =
                      [(''role'', JStr ''Backend Developer''),
                       (''matchPercentage'', JNum 50),
                       (''recommendedSkills'',
                          JArr [JObj [(''skill'', JStr ''SQL''), (''score'', JNum 9),
                                      (''name'', JStr ''SQL''), (''demand'', JNum 9)]])]\<rparr>)
                    ''matchPercentage'' = JNum (of_int p)
              \<and> p = \<lfloor>fl (fl (of_nat (length (filter (\<lambda>s. JStr s \<in> set [JStr ''Node''])
                                                 (requiredSkills (example_roles ! i))))
                               / of_nat (length (requiredSkills (example_roles ! i)))) * 100)
                       + 1 / 2\<rfloor>
              \<and> (length (requiredSkills (example_roles ! i)) < 2 ^ 32 \<longrightarrow>
                   0 \<le> p \<and> p \<le> 100
                   \<and> (p = round_half_away_from_zero
                            (of_nat (length (filter (\<lambda>s. JStr s \<in> set [JStr ''Node''])
                                               (requiredSkills (example_roles ! i))))
                               / of_nat (length (requiredSkills (example_roles ! i))) * 100)
                       \<or> (of_int p + 1 / 2 =
                             (of_nat (length (filter (\<lambda>s. JStr s \<in> set [JStr ''Node''])
                                                (requiredSkills (example_roles ! i))))
                                / of_nat (length (requiredSkills (example_roles ! i))) * 100 :: rat)
                           \<and> fl (fl (of_nat (length (filter (\<lambda>s. JStr s \<in> set [JStr ''Node''])
                                                        (requiredSkills (example_roles ! i))))
                                      / of_nat (length (requiredSkills (example_roles ! i)))) * 100)
                               < of_nat (length (filter (\<lambda>s. JStr s \<in> set [JStr ''Node''])
                                                   (requiredSkills (example_roles ! i))))
                                   / of_nat (length (requiredSkills (example_roles ! i))) * 100))))))
   \<and> requiredSkills (example_roles ! 0) = [''Node'', ''SQL'']
   \<and> \<lfloor>fl (fl (1 / 2) * 100) + 1 / 2\<rfloor> = 50
   \<and> round_half_away_from_zero (1 / 2 * 100) = 50
   \<and> \<lfloor>fl (fl (1 / 8) * 100) + 1 / 2\<rfloor> = 13
   \<and> round_half_away_from_zero (1 / 8 * 100) = 13"
proof -
  let ?req = "\<lparr>skills = Some [JStr ''Node'']\<rparr>"
  have run: "recommendCareer example_score example_coerce example_roles example_skills ?req =
     Inr \<lparr>status = 200,
          body =
            [(''role'', JStr ''Backend Developer''),
             (''matchPercentage'', JNum 50),
             (''recommendedSkills'',
                JArr [JObj [(''skill'', JStr ''SQL''), (''score'', JNum 9),
                            (''name'', JStr ''SQL''), (''demand'', JNum 9)]])]\<rparr>"
    by code_simp
  have sk: "skills ?req = Some [JStr ''Node'']" by simp
  have ne: "[JStr ''Node''] \<noteq> []" by simp
  have r: "requiredSkills (example_roles ! 0) = [''Node'', ''SQL'']"
    by (simp add: example_roles_def)
  have h: "\<lfloor>fl (fl (1 / 2) * 100) + 1 / 2\<rfloor> = 50"
    by code_simp
  have h': "round_half_away_from_zero (1 / 2 * 100) = 50"
    by code_simp
  have e: "\<lfloor>fl (fl (1 / 8) * 100) + 1 / 2\<rfloor> = 13"
    by code_simp
  have e': "round_half_away_from_zero (1 / 8 * 100) = 13"
    by code_simp
  show ?thesis
    by (intro conjI match_percentage_nearest_integer [OF sk ne run] r h h' e e')
qed

section \<open>What a request writes to\<close>

lemma frame_refl [simp]: "frame s s"
  by (simp add: frame_def)

lemma frame_trans: "frame s s' \<Longrightarrow> frame s' s'' \<Longrightarrow> frame s s''"
  by (auto simp: frame_def)

lemma frame_write:
  "frame s0 s \<Longrightarrow> fresh s0 \<le> a \<Longrightarrow> frame s0 (s\<lparr>cells := (cells s)(a \<mapsto> xs)\<rparr>)"
  by (auto simp: frame_def)

lemma ensuresI:
  assumes "\<And>s r s'. frame s0 s \<Longrightarrow> m s = (r, s') \<Longrightarrow> frame s0 s' \<and> (\<forall>x. r = Inr x \<longrightarrow> Q x)"
  shows "ensures s0 m Q"
  using assms unfolding ensures_def by blast

lemma ensuresD:
  assumes "ensures s0 m Q" and "frame s0 s" and "m s = (r, s')"
  shows "frame s0 s'" and "r = Inr x \<Longrightarrow> Q x"
  using assms unfolding ensures_def by blast+

lemma ensures_return: "Q x \<Longrightarrow> ensures s0 (return x) Q"
  by (simp add: ensures_def return_def)

lemma ensures_throw: "ensures s0 (throw e) Q"
  by (simp add: ensures_def throw_def)

lemma ensures_alloc: "ensures s0 (alloc xs) (\<lambda>b. fresh s0 \<le> b)"
  by (rule ensuresI) (auto simp: frame_def alloc_def)

lemma ensures_and_then:
  assumes m: "ensures s0 m Q" and f: "\<And>x. Q x \<Longrightarrow> ensures s0 (f x) R"
  shows "ensures s0 (and_then m f) R"
proof (rule ensuresI)
  fix s r s'
  assume fr: "frame s0 s" and run: "and_then m f s = (r, s')"
  obtain r1 s1 where m1: "m s = (r1, s1)" by (cases "m s")
  from ensuresD [OF m fr m1] have fr1: "frame s0 s1" and q: "\<And>x. r1 = Inr x \<Longrightarrow> Q x"
    by blast+
  show "frame s0 s' \<and> (\<forall>x. r = Inr x \<longrightarrow> R x)"
  proof (cases r1)
    case (Inl e)
    with run m1 fr1 show ?thesis by (auto simp: and_then_def)
  next
    case (Inr x)
    with run m1 have "f x s1 = (r, s')" by (simp add: and_then_def)
    from ensuresD [OF f [OF q [OF Inr]] fr1 this] show ?thesis by blast
  qed
qed

lemma ensures_each:
  assumes "\<And>x. ensures s0 (f x) (\<lambda>_. True)"
  shows "ensures s0 (each f xs) (\<lambda>_. True)"
proof (induction xs)
  case Nil
  show ?case by (simp add: ensures_return)
next
  case (Cons x xs)
  show ?case
    unfolding each.simps
    by (intro ensures_and_then [OF assms] ensures_and_then [OF Cons] ensures_return) simp
qed

lemma ensures_Array_filter: "ensures s0 (Array_filter P a) (\<lambda>b. fresh s0 \<le> b)"
  by (rule ensuresI)
    (auto simp: Array_filter_def throw_def alloc_def frame_def split: option.splits array.splits)

lemma ensures_Array_length: "ensures s0 (Array_length a) (\<lambda>_. True)"
  by (rule ensuresI)
    (auto simp: Array_length_def throw_def return_def split: option.splits array.splits)

lemma ensures_Array_first: "ensures s0 (Array_first a) (\<lambda>_. True)"
  by (rule ensuresI)
    (auto simp: Array_first_def throw_def return_def split: option.splits array.splits)

lemma ensures_Array_find_role: "ensures s0 (Array_find_role P a) (\<lambda>_. True)"
  by (rule ensuresI)
    (auto simp: Array_find_role_def throw_def return_def split: option.splits array.splits)

lemma ensures_Array_find_obj: "ensures s0 (Array_find_obj P a) (\<lambda>_. True)"
  by (rule ensuresI)
    (auto simp: Array_find_obj_def throw_def return_def split: option.splits array.splits)

lemma ensures_read_objs: "ensures s0 (read_objs a) (\<lambda>_. True)"
  by (rule ensuresI)
    (auto simp: read_objs_def throw_def return_def split: option.splits array.splits)

lemma ensures_Array_slice: "ensures s0 (Array_slice n a) (\<lambda>b. fresh s0 \<le> b)"
  by (rule ensuresI)
    (auto simp: Array_slice_def throw_def alloc_def frame_def split: option.splits array.splits)

lemma ensures_Array_map_roles:
  assumes "\<And>x. ensures s0 (f x) (\<lambda>_. True)"
  shows "ensures s0 (Array_map_roles f a) (\<lambda>b. fresh s0 \<le> b)"
proof (rule ensuresI)
  fix s r s'
  assume fr: "frame s0 s" and run: "Array_map_roles f a s = (r, s')"
  have body: "ensures s0 (and_then (each f rs) (\<lambda>ms. alloc (MatchArray ms))) (\<lambda>b. fresh s0 \<le> b)"
    for rs
    by (intro ensures_and_then [OF ensures_each [OF assms]] ensures_alloc)
  show "frame s0 s' \<and> (\<forall>x. r = Inr x \<longrightarrow> fresh s0 \<le> x)"
    using fr run ensuresD [OF body fr]
    by (auto simp: Array_map_roles_def throw_def split: option.splits array.splits)
qed

lemma ensures_Array_map_strings:
  assumes "\<And>x. ensures s0 (f x) (\<lambda>_. True)"
  shows "ensures s0 (Array_map_strings f a) (\<lambda>b. fresh s0 \<le> b)"
proof (rule ensuresI)
  fix s r s'
  assume fr: "frame s0 s" and run: "Array_map_strings f a s = (r, s')"
  have body: "ensures s0 (and_then (each f xs) (\<lambda>es. alloc (ObjArray es))) (\<lambda>b. fresh s0 \<le> b)"
    for xs
    by (intro ensures_and_then [OF ensures_each [OF assms]] ensures_alloc)
  show "frame s0 s' \<and> (\<forall>x. r = Inr x \<longrightarrow> fresh s0 \<le> x)"
    using fr run ensuresD [OF body fr]
    by (auto simp: Array_map_strings_def throw_def split: option.splits array.splits)
qed

lemma ensures_Array_sort_matches:
  assumes "fresh s0 \<le> a"
  shows "ensures s0 (Array_sort_matches c a) (\<lambda>b. b = a)"
  by (rule ensuresI)
    (auto simp: Array_sort_matches_def throw_def frame_write [OF _ assms]
      split: option.splits array.splits)

lemma ensures_Array_sort_objs:
  assumes "fresh s0 \<le> a"
  shows "ensures s0 (Array_sort_objs c a) (\<lambda>b. b = a)"
  by (rule ensuresI)
    (auto simp: Array_sort_objs_def throw_def frame_write [OF _ assms]
      split: option.splits array.splits)

lemma ensures_scoreRole_on: "ensures s0 (scoreRole_on userSkills r) (\<lambda>_. True)"
  unfolding scoreRole_on_def
  by (intro ensures_and_then [OF ensures_Array_filter] ensures_and_then [OF ensures_Array_length]
      ensures_return) simp

lemma ensures_missingEntry_on: "ensures s0 (missingEntry_on calculateScore skillsDataAt skill) (\<lambda>_. True)"
  unfolding missingEntry_on_def
  by (intro ensures_and_then [OF ensures_Array_find_obj])
    (auto split: sum.splits intro: ensures_throw ensures_return)

lemma ensures_recommendCareer_on:
  "ensures s0 (recommendCareer_on calculateScore coerce rolesAt skillsDataAt req) (\<lambda>_. True)"
proof -
  have tail: "ensures s0
      (case (first, found) of
         (Some matched, Some targetRole) \<Rightarrow>
           and_then (Array_filter (\<lambda>skill. \<not> array_includes userSkills (JStr skill))
                       (requiredSkillsAt targetRole)) (\<lambda>filtered.
           and_then (Array_map_strings (missingEntry_on calculateScore skillsDataAt) filtered)
             (\<lambda>missing.
           and_then (Array_sort_objs (byScore coerce) missing) (\<lambda>sortedRecommendations.
           and_then (Array_slice 3 sortedRecommendations) (\<lambda>sliced.
           and_then (read_objs sliced) (\<lambda>recommended.
           return \<lparr>status = 200,
                  body =
                    [(''role'', JStr (role matched)),
                     (''matchPercentage'', matchPercentage matched),
                     (''recommendedSkills'', JArr (map JObj recommended))]\<rparr>)))))
       | _ \<Rightarrow> throw TypeError) (\<lambda>_. True)" for first found userSkills
  proof (cases first)
    case None
    then show ?thesis by (simp add: ensures_throw)
  next
    case (Some matched)
    show ?thesis
    proof (cases found)
      case None
      with Some show ?thesis by (simp add: ensures_throw)
    next
      case found: (Some targetRole)
      show ?thesis
        unfolding Some found
        apply simp
        apply (rule ensures_and_then [OF ensures_Array_filter])
        apply (rule ensures_and_then [OF ensures_Array_map_strings [OF ensures_missingEntry_on]])
        apply (rule ensures_and_then [OF ensures_Array_sort_objs])
         apply assumption
        apply (rule ensures_and_then [OF ensures_Array_slice])
        apply (rule ensures_and_then [OF ensures_read_objs])
        apply (rule ensures_return)
        apply simp
        done
    qed
  qed
  show ?thesis
    unfolding recommendCareer_on_def Let_def
    apply (cases "length (case skills req of None \<Rightarrow> [] | Some xs \<Rightarrow> xs) = 0")
     apply (simp add: ensures_return)
    apply (simp only: if_False)
    apply (rule ensures_and_then [OF ensures_Array_map_roles [OF ensures_scoreRole_on]])
    apply (rule ensures_and_then [OF ensures_Array_sort_matches])
     apply assumption
    apply (rule ensures_and_then [OF ensures_Array_first])
    apply (rule ensures_and_then [OF ensures_Array_find_role])
    apply (rule tail)
    done
qed

lemma role_at_frame: "frame s s' \<Longrightarrow> role_at s r R \<Longrightarrow> role_at s' r R"
  by (auto simp: frame_def role_at_def)

lemma tables_at_frame:
  assumes "frame s s'" and "tables_at s rolesAt skillsDataAt roles skillsData"
  shows "tables_at s' rolesAt skillsDataAt roles skillsData"
proof -
  from assms(2) obtain rs where rs: "rolesAt < fresh s" "cells s rolesAt = Some (RoleArray rs)"
    "list_all2 (role_at s) rs roles" "skillsDataAt < fresh s"
    "cells s skillsDataAt = Some (ObjArray skillsData)"
    unfolding tables_at_def by blast
  from rs(3) have "list_all2 (role_at s') rs roles"
    by (rule list_all2_mono) (rule role_at_frame [OF assms(1)])
  with rs assms(1) show ?thesis
    unfolding tables_at_def frame_def by auto
qed

text \<open>
  C9. Every array that exists when the request arrives has the contents it had once
  the handler is done; in particular a store that holds the Roles and the Skills
  table still holds them. The two sorts write to the cells that \<open>map\<close> has just
  made.
\<close>

theorem tables_left_unchanged:
  assumes "recommendCareer_on calculateScore coerce rolesAt skillsDataAt req s = (r, s')"
  shows "(\<forall>a<fresh s. cells s' a = cells s a)
         \<and> (tables_at s rolesAt skillsDataAt roles skillsData \<longrightarrow>
              tables_at s' rolesAt skillsDataAt roles skillsData)"
proof -
  have "frame s s'"
    using ensures_recommendCareer_on frame_refl assms by (rule ensuresD)
  then show ?thesis
    using tables_at_frame by (auto simp: frame_def)
qed

lemma tables_at_example: "tables_at example_store 2 3 example_roles example_skills"
  unfolding tables_at_def
  by (rule exI [of _ "[\<lparr>role = ''Backend Developer'', requiredSkillsAt = 0\<rparr>,
                         \<lparr>role = ''Frontend Developer'', requiredSkillsAt = 1\<rparr>]"])
    (simp add: example_store_def example_roles_def role_at_def)

theorem tables_left_unchanged_witness:
  "cells (snd (recommendCareer_on example_score example_coerce 2 3 css_request example_store)) 0
     = Some (StringArray [''Node'', ''SQL''])
   \<and> cells (snd (recommendCareer_on example_score example_coerce 2 3 css_request example_store)) 1
     = Some (StringArray [''React'', ''CSS''])
   \<and> cells (snd (recommendCareer_on example_score example_coerce 2 3 css_request example_store)) 2
     = Some (RoleArray [\<lparr>role = ''Backend Developer'', requiredSkillsAt = 0\<rparr>,
                        \<lparr>role = ''Frontend Developer'', requiredSkillsAt = 1\<rparr>])
   \<and> cells (snd (recommendCareer_on example_score example_coerce 2 3 css_request example_store)) 3
     = Some (ObjArray example_skills)
   \<and> tables_at (snd (recommendCareer_on example_score example_coerce 2 3 css_request example_store))
        2 3 example_roles example_skills
   \<and> cells (snd (recommendCareer_on example_score example_coerce 2 3 css_request example_store)) 6
     = Some (MatchArray
               [\<lparr>role = ''Frontend Developer'', matchCount = 1, totalRequired = 2\<rparr>,
                \<lparr>role = ''Backend Developer'', matchCount = 0, totalRequired = 2\<rparr>])"
proof -
  let ?run = "recommendCareer_on example_score example_coerce 2 3 css_request example_store"
  have run: "?run = (fst ?run, snd ?run)" by simp
  from tables_left_unchanged [OF run, of example_roles example_skills] tables_at_example
  have same: "\<forall>a<fresh example_store. cells (snd ?run) a = cells example_store a"
    and t: "tables_at (snd ?run) 2 3 example_roles example_skills"
    by blast+
  have f: "fresh example_store = 4" by (simp add: example_store_def)
  from same f have "cells (snd ?run) 0 = cells example_store 0"
    "cells (snd ?run) 1 = cells example_store 1"
    "cells (snd ?run) 2 = cells example_store 2"
    "cells (snd ?run) 3 = cells example_store 3"
    by simp_all
  then have c: "cells (snd ?run) 0 = Some (StringArray [''Node'', ''SQL''])"
    "cells (snd ?run) 1 = Some (StringArray [''React'', ''CSS''])"
    "cells (snd ?run) 2 = Some (RoleArray [\<lparr>role = ''Backend Developer'', requiredSkillsAt = 0\<rparr>,
                        \<lparr>role = ''Frontend Developer'', requiredSkillsAt = 1\<rparr>])"
    "cells (snd ?run) 3 = Some (ObjArray example_skills)"
    by (simp_all add: example_store_def)
  have m: "cells (snd ?run) 6 = Some (MatchArray
               [\<lparr>role = ''Frontend Developer'', matchCount = 1, totalRequired = 2\<rparr>,
                \<lparr>role = ''Backend Developer'', matchCount = 0, totalRequired = 2\<rparr>])"
    by code_simp
  show ?thesis by (intro conjI c t m)
qed

section \<open>The response is a function of the tables and the request\<close>

lemma scoreRole_on_run:
  assumes "role_at s r R"
  shows "\<exists>s1. scoreRole_on userSkills r s = (Inr (scoreRole userSkills R), s1) \<and> frame s s1"
  using assms
  by (auto simp: role_at_def scoreRole_on_def and_then_def Array_filter_def Array_length_def
      alloc_def return_def scoreRole_def Let_def frame_def)

lemma each_scoreRole_on:
  assumes "list_all2 (role_at s) rs Rs"
  shows "\<exists>s1. each (scoreRole_on userSkills) rs s = (Inr (map (scoreRole userSkills) Rs), s1)
           \<and> frame s s1"
  using assms
proof (induction rs arbitrary: Rs s)
  case Nil
  then show ?case by (simp add: return_def)
next
  case (Cons r rs)
  from Cons.prems obtain R Rs' where Rs: "Rs = R # Rs'" and r: "role_at s r R"
    and rest: "list_all2 (role_at s) rs Rs'"
    by (auto simp: list_all2_Cons1)
  from scoreRole_on_run [OF r, of userSkills] obtain s1 where
    s1: "scoreRole_on userSkills r s = (Inr (scoreRole userSkills R), s1)" and f1: "frame s s1"
    by blast
  from rest have "list_all2 (role_at s1) rs Rs'"
    by (rule list_all2_mono) (rule role_at_frame [OF f1])
  from Cons.IH [OF this] obtain s2 where
    s2: "each (scoreRole_on userSkills) rs s1 = (Inr (map (scoreRole userSkills) Rs'), s2)"
    and f2: "frame s1 s2"
    by blast
  have "each (scoreRole_on userSkills) (r # rs) s = (Inr (map (scoreRole userSkills) Rs), s2)"
    by (simp add: and_then_def s1 s2 return_def Rs)
  with frame_trans [OF f1 f2] show ?case by blast
qed

lemma each_missingEntry_on:
  assumes "cells s skillsDataAt = Some (ObjArray skillsData)"
  shows "each (missingEntry_on calculateScore skillsDataAt) names s =
           (array_map (missingEntry calculateScore skillsData) names, s)"
proof (induction names)
  case Nil
  show ?case by (simp add: return_def)
next
  case (Cons n names)
  have one: "missingEntry_on calculateScore skillsDataAt n s =
               (missingEntry calculateScore skillsData n, s)"
    using assms
    by (auto simp: missingEntry_on_def missingEntry_def and_then_def Array_find_obj_def
        return_def throw_def Let_def split: sum.splits)
  show ?case
    by (auto simp: and_then_def one Cons return_def split: sum.splits)
qed

lemma find_related:
  assumes "list_all2 Rel xs ys" and "\<And>x y. Rel x y \<Longrightarrow> P x = Q y"
  shows "rel_option Rel (find P xs) (find Q ys)"
  using assms by (induction rule: list_all2_induct) auto

text \<open>On a store that holds the tables, the handler on addresses returns what
  \<open>recommendCareer\<close> computes from the tables as values.\<close>

lemma recommendCareer_on_correct:
  assumes "tables_at s rolesAt skillsDataAt roles skillsData"
  shows "fst (recommendCareer_on calculateScore coerce rolesAt skillsDataAt req s) =
           recommendCareer calculateScore coerce roles skillsData req"
proof -
  define userSkills where "userSkills = (case skills req of None \<Rightarrow> [] | Some xs \<Rightarrow> xs)"
  from assms obtain rs where R: "rolesAt < fresh s" and rs: "cells s rolesAt = Some (RoleArray rs)"
    and rel: "list_all2 (role_at s) rs roles" and S: "skillsDataAt < fresh s"
    and sk: "cells s skillsDataAt = Some (ObjArray skillsData)"
    unfolding tables_at_def by blast
  show ?thesis
  proof (cases "length userSkills = 0")
    case True
    then show ?thesis
      by (simp add: recommendCareer_on_def recommendCareer_def userSkills_def return_def)
  next
    case False
    from each_scoreRole_on [OF rel, of userSkills] obtain s1 where
      run1: "each (scoreRole_on userSkills) rs s = (Inr (map (scoreRole userSkills) roles), s1)"
      and f1: "frame s s1"
      by blast
    from f1 have le: "fresh s \<le> fresh s1" and same: "\<And>a. a < fresh s \<Longrightarrow> cells s1 a = cells s a"
      by (auto simp: frame_def)
    let ?ms = "map (scoreRole userSkills) roles"
    let ?sorted = "array_sort byMatchCount ?ms"
    have first: "(case ?sorted of [] \<Rightarrow> None | m # x \<Rightarrow> Some m) = matchedRole roles userSkills"
      by (simp add: matchedRole_def)
    have R1: "rolesAt < fresh s1" "cells s1 rolesAt = Some (RoleArray rs)"
      using R le same rs by auto
    have S1: "skillsDataAt < fresh s1" "cells s1 skillsDataAt = Some (ObjArray skillsData)"
      using S le same sk by auto
    show ?thesis
    proof (cases "matchedRole roles userSkills")
      case None
      then show ?thesis
        using False R1 first
        by (simp add: recommendCareer_on_def recommendCareer_def userSkills_def [symmetric]
            and_then_def Array_map_roles_def rs run1 alloc_def Array_sort_matches_def
            Array_first_def return_def Array_find_role_def throw_def
            split: option.splits)
    next
      case (Some matched)
      have frel: "rel_option (role_at s) (find (\<lambda>r. role r = role matched) rs)
                    (find (\<lambda>r. role r = role matched) roles)"
        using rel by (rule find_related) (simp add: role_at_def)
      show ?thesis
      proof (cases "find (\<lambda>r. role r = role matched) roles")
        case None
        with frel have "find (\<lambda>r. role r = role matched) rs = None" by (cases "find (\<lambda>r. role r = role matched) rs") simp_all
        then show ?thesis
          using False R1 first Some None
          by (simp add: recommendCareer_on_def recommendCareer_def userSkills_def [symmetric]
              and_then_def Array_map_roles_def rs run1 alloc_def Array_sort_matches_def
              Array_first_def return_def Array_find_role_def throw_def)
      next
        case target: (Some targetRole)
        with frel obtain r where fr: "find (\<lambda>r. role r = role matched) rs = Some r"
          and r: "role_at s r targetRole"
          by (cases "find (\<lambda>r. role r = role matched) rs") simp_all
        from r have r1: "requiredSkillsAt r < fresh s1"
          "cells s1 (requiredSkillsAt r) = Some (StringArray (requiredSkills targetRole))"
          using le same by (auto simp: role_at_def)
        let ?names = "filter (\<lambda>skill. \<not> array_includes userSkills (JStr skill)) (requiredSkills targetRole)"
        let ?s4 = "s1\<lparr>cells := ((cells s1)(fresh s1 \<mapsto> MatchArray ?sorted))
                                (Suc (fresh s1) \<mapsto> StringArray ?names),
                       fresh := Suc (Suc (fresh s1))\<rparr>"
        have sk4: "cells ?s4 skillsDataAt = Some (ObjArray skillsData)"
          using S1 by simp
        note run2 = each_missingEntry_on [OF sk4, of calculateScore ?names]
        show ?thesis
          using False R1 S1 r1 first Some target fr run2
          by (simp add: recommendCareer_on_def recommendCareer_def userSkills_def [symmetric]
              and_then_def Array_map_roles_def rs run1 alloc_def Array_sort_matches_def
              Array_first_def return_def Array_find_role_def throw_def Array_filter_def
              Array_map_strings_def Array_sort_objs_def Array_slice_def read_objs_def
              missingSkills_def
              split: sum.splits)
      qed
    qed
  qed
qed

text \<open>
  C8. On a store that holds the two tables, the same request handled twice in a row
  gets the same response both times, status and body with every field: it is the
  response the tables and the request determine, and the first handling leaves the
  tables as they were.
\<close>

theorem repeated_request_same_response:
  assumes "tables_at s rolesAt skillsDataAt roles skillsData"
    and "recommendCareer_on calculateScore coerce rolesAt skillsDataAt req s = (r1, s1)"
    and "recommendCareer_on calculateScore coerce rolesAt skillsDataAt req s1 = (r2, s2)"
  shows "r2 = r1 \<and> r1 = recommendCareer calculateScore coerce roles skillsData req"
proof -
  have "frame s s1"
    using ensures_recommendCareer_on frame_refl assms(2) by (rule ensuresD)
  then have t1: "tables_at s1 rolesAt skillsDataAt roles skillsData"
    using assms(1) by (rule tables_at_frame)
  from recommendCareer_on_correct [OF assms(1), of calculateScore coerce req] assms(2)
  have "r1 = recommendCareer calculateScore coerce roles skillsData req" by simp
  moreover from recommendCareer_on_correct [OF t1, of calculateScore coerce req] assms(3)
  have "r2 = recommendCareer calculateScore coerce roles skillsData req" by simp
  ultimately show ?thesis by simp
qed

theorem repeated_request_same_response_witness:
  "tables_at example_store 2 3 example_roles example_skills
   \<and> fst (recommendCareer_on example_score example_coerce 2 3 css_request
            (snd (recommendCareer_on example_score example_coerce 2 3 css_request example_store)))
       = fst (recommendCareer_on example_score example_coerce 2 3 css_request example_store)
   \<and> fst (recommendCareer_on example_score example_coerce 2 3 css_request example_store) =
       Inr \<lparr>status = 200,
            body =
              [(''role'', JStr ''Frontend Developer''),
               (''matchPercentage'', JNum 50),
               (''recommendedSkills'',
                  JArr [JObj [(''skill'', JStr ''React''), (''score'', JNum 0)]])]\<rparr>"
proof -
  let ?run = "recommendCareer_on example_score example_coerce 2 3 css_request"
  have run1: "?run example_store = (fst (?run example_store), snd (?run example_store))"
    by simp
  have run2: "?run (snd (?run example_store)) =
                (fst (?run (snd (?run example_store))), snd (?run (snd (?run example_store))))"
    by simp
  have pure: "recommendCareer example_score example_coerce example_roles example_skills css_request =
       Inr \<lparr>status = 200,
            body =
              [(''role'', JStr ''Frontend Developer''),
               (''matchPercentage'', JNum 50),
               (''recommendedSkills'',
                  JArr [JObj [(''skill'', JStr ''React''), (''score'', JNum 0)]])]\<rparr>"
    by code_simp
  from repeated_request_same_response [OF tables_at_example run1 run2] pure tables_at_example
  show ?thesis by simp
qed

end
